theory Spec2Isabelle
  imports
    Main
    "HOL-Library.Finite_Map"
    "HOL-Library.Char_ord"
    "HOL-Library.List_Lexorder"
begin

section \<open>The fluent HTTP client (package fluent) and the library calls it makes\<close>

text \<open>
  The package has two source files: \<^verbatim>\<open>client.go\<close> (the builder \<^verbatim>\<open>Client\<close>, the
  error type \<^verbatim>\<open>HTTPError\<close>, the sentinel \<^verbatim>\<open>ErrNotOK\<close>) and \<^verbatim>\<open>response.go\<close> (the wrapper
  \<^verbatim>\<open>Response\<close>).  Both are embedded below function by function.

  What the package computes is decided by the Go standard library functions it calls:
  \<^verbatim>\<open>url.Parse\<close>, \<^verbatim>\<open>URL.String\<close>, \<^verbatim>\<open>URL.Query\<close>, \<^verbatim>\<open>Values.Add\<close>, \<^verbatim>\<open>Values.Encode\<close>,
  \<^verbatim>\<open>Header.Add/Get/Set\<close>, \<^verbatim>\<open>http.NewRequestWithContext\<close>, \<^verbatim>\<open>io.ReadAll\<close>, \<^verbatim>\<open>errors.Is\<close>,
  \<^verbatim>\<open>strings.TrimPrefix/TrimSuffix\<close>.  These are not part of the repository; they are embedded
  here from the standard library (net/url, net/http, net/textproto, strings, errors as of
  Go 1.22), under names that carry their package (\<open>url_Parse\<close>, \<open>strings_Cut\<close>, ...).
  \<^verbatim>\<open>json.Marshal\<close>, the JSON decoder and the transport (\<^verbatim>\<open>httpClient.Do\<close>) stay
  parameters: arbitrary functions of the right type.

  Go strings are byte sequences; \<^typ>\<open>string\<close> is a list of 8-bit characters, compared
  byte-wise (\<open>Char_ord\<close>, \<open>List_Lexorder\<close>) as Go's \<^verbatim>\<open><\<close> on strings does.
\<close>

subsection \<open>Package strings\<close>

definition strings_HasPrefix :: "string \<Rightarrow> string \<Rightarrow> bool" where
  "strings_HasPrefix s p = (take (length p) s = p)"

definition strings_HasSuffix :: "string \<Rightarrow> string \<Rightarrow> bool" where
  "strings_HasSuffix s p = (length p \<le> length s \<and> drop (length s - length p) s = p)"

definition strings_TrimPrefix :: "string \<Rightarrow> string \<Rightarrow> string" where
  "strings_TrimPrefix s p = (if strings_HasPrefix s p then drop (length p) s else s)"

definition strings_TrimSuffix :: "string \<Rightarrow> string \<Rightarrow> string" where
  "strings_TrimSuffix s p = (if strings_HasSuffix s p then take (length s - length p) s else s)"

text \<open>\<^verbatim>\<open>strings.Index\<close>: the first position where \<open>sep\<close> occurs, \<open>None\<close> for Go's \<open>-1\<close>.\<close>

fun strings_Index :: "string \<Rightarrow> string \<Rightarrow> nat option" where
  "strings_Index [] sep = (if sep = [] then Some 0 else None)"
| "strings_Index (c # s) sep =
     (if strings_HasPrefix (c # s) sep then Some 0 else map_option Suc (strings_Index s sep))"

fun strings_LastIndex :: "string \<Rightarrow> string \<Rightarrow> nat option" where
  "strings_LastIndex [] sep = (if sep = [] then Some 0 else None)"
| "strings_LastIndex (c # s) sep =
     (case strings_LastIndex s sep of
        Some i \<Rightarrow> Some (Suc i)
      | None \<Rightarrow> if strings_HasPrefix (c # s) sep then Some 0 else None)"

definition strings_Contains :: "string \<Rightarrow> string \<Rightarrow> bool" where
  "strings_Contains s sub = (strings_Index s sub \<noteq> None)"

text \<open>\<^verbatim>\<open>strings.Cut\<close> returns (before, after, found).\<close>

definition strings_Cut :: "string \<Rightarrow> string \<Rightarrow> string \<times> string \<times> bool" where
  "strings_Cut s sep =
     (case strings_Index s sep of
        Some i \<Rightarrow> (take i s, drop (i + length sep) s, True)
      | None \<Rightarrow> (s, [], False))"

text \<open>
  \<^verbatim>\<open>strings.Count\<close> for a separator of one byte (its only use below, with \<^verbatim>\<open>"?"\<close>): the
  number of positions at which the separator stands.
\<close>

definition strings_Count :: "string \<Rightarrow> string \<Rightarrow> nat" where
  "strings_Count s sep = length (filter (\<lambda>i. strings_HasPrefix (drop i s) sep) [0..<length s])"

text \<open>
  \<^verbatim>\<open>strings.ToLower\<close> on ASCII letters.  It is applied to a URL scheme only, which
  \<open>getScheme\<close> has restricted to ASCII letters, digits and \<^verbatim>\<open>+-.\<close>.
\<close>

definition lower_byte :: "char \<Rightarrow> char" where
  "lower_byte c = (if CHR ''A'' \<le> c \<and> c \<le> CHR ''Z'' then char_of (of_char c + (32::nat)) else c)"

definition strings_ToLower :: "string \<Rightarrow> string" where
  "strings_ToLower s = map lower_byte s"

subsection \<open>Errors\<close>

text \<open>
  \<^verbatim>\<open>HTTPError\<close> is the package's own error struct (client.go, lines 18-24).  \<open>Body\<close> is the
  byte slice read from the response.
\<close>

record HTTPError =
  StatusCode :: int
  Status :: string
  Method :: string
  URL :: string
  Body :: string

text \<open>
  Go's \<^verbatim>\<open>error\<close> values, as far as the package and the modelled library produce them.
  \<^item> \<open>ErrNotOK\<close> is the package variable \<^verbatim>\<open>ErrNotOK = errors.New("invalid status code")\<close>:
    one fixed pointer, different from every other \<^verbatim>\<open>errors.New\<close> value whatever its text;
  \<^item> \<open>HTTPError_ptr h\<close> is a \<^verbatim>\<open>*HTTPError\<close>;
  \<^item> \<open>wrapError msg e\<close> is \<^verbatim>\<open>fmt.Errorf(msg + "%w", e)\<close>;
  \<^item> \<open>url_Error op u e\<close> is \<^verbatim>\<open>&url.Error{Op, URL, Err}\<close>;
  \<^item> \<open>EscapeError\<close>, \<open>InvalidHostError\<close> are net/url's string error types;
    \<open>invalidPort p\<close> stands for \<^verbatim>\<open>fmt.Errorf("invalid port %q after host", p)\<close> and
    \<open>invalidMethod m\<close> for \<^verbatim>\<open>fmt.Errorf("net/http: invalid method %q", m)\<close>;
  \<^item> \<open>errorString msg\<close> is any other \<^verbatim>\<open>errors.New(msg)\<close>: the library's own, or an error
    of the transport, of a body stream or of the JSON codec.
  An error that comes from outside (transport, stream, codec) may be any value of this
  type, the sentinel and wrappers of it included.
\<close>

datatype error =
    ErrNotOK
  | HTTPError_ptr HTTPError
  | wrapError string error
  | url_Error string string error
  | EscapeError string
  | InvalidHostError string
  | invalidPort string
  | invalidMethod string
  | errorString string

text \<open>\<^verbatim>\<open>func (e *HTTPError) Error() string\<close> (client.go, lines 26-32).\<close>

definition HTTPError_Error :: "HTTPError \<Rightarrow> string" where
  "HTTPError_Error e =
     (if length (Body e) = 0 then Method e @ '' '' @ URL e @ '': '' @ Status e
      else Method e @ '' '' @ URL e @ '': '' @ Status e @ '': '' @ Body e)"

text \<open>\<^verbatim>\<open>func (e *HTTPError) Unwrap() error\<close> (client.go, lines 34-36).\<close>

definition HTTPError_Unwrap :: "HTTPError \<Rightarrow> error" where
  "HTTPError_Unwrap e = ErrNotOK"

text \<open>
  \<^verbatim>\<open>errors.Is(err, target)\<close> walks the chain of \<^verbatim>\<open>Unwrap\<close>: \<^verbatim>\<open>*HTTPError\<close> unwraps to
  \<open>HTTPError_Unwrap\<close>, \<^verbatim>\<open>*fmt.wrapError\<close> and \<^verbatim>\<open>*url.Error\<close> to the error they hold; the other
  types have no \<^verbatim>\<open>Unwrap\<close>.  None of the types has an \<^verbatim>\<open>Is\<close> method.  Go compares the
  pointers; the model compares the values.
\<close>

fun errors_Is :: "error \<Rightarrow> error \<Rightarrow> bool" where
  "errors_Is (HTTPError_ptr h) target =
     (if HTTPError_ptr h = target then True else HTTPError_Unwrap h = target)"
| "errors_Is (wrapError msg e) target =
     (if wrapError msg e = target then True else errors_Is e target)"
| "errors_Is (url_Error op u e) target =
     (if url_Error op u e = target then True else errors_Is e target)"
| "errors_Is err target = (err = target)"

text \<open>\<^verbatim>\<open>errors.As(err, &he)\<close> for a target of type \<^verbatim>\<open>*HTTPError\<close>.\<close>

fun errors_As_HTTPError :: "error \<Rightarrow> HTTPError option" where
  "errors_As_HTTPError (HTTPError_ptr h) = Some h"
| "errors_As_HTTPError (wrapError msg e) = errors_As_HTTPError e"
| "errors_As_HTTPError (url_Error op u e) = errors_As_HTTPError e"
| "errors_As_HTTPError err = None"

subsection \<open>Package net/url: escaping\<close>

datatype encoding =
    encodePath
  | encodePathSegment
  | encodeHost
  | encodeZone
  | encodeUserPassword
  | encodeQueryComponent
  | encodeFragment

definition ishex :: "char \<Rightarrow> bool" where
  "ishex c =
     (if CHR ''0'' \<le> c \<and> c \<le> CHR ''9'' then True
      else if CHR ''a'' \<le> c \<and> c \<le> CHR ''f'' then True
      else if CHR ''A'' \<le> c \<and> c \<le> CHR ''F'' then True
      else False)"

definition unhex :: "char \<Rightarrow> nat" where
  "unhex c =
     (if CHR ''0'' \<le> c \<and> c \<le> CHR ''9'' then of_char c - of_char CHR ''0''
      else if CHR ''a'' \<le> c \<and> c \<le> CHR ''f'' then of_char c - of_char CHR ''a'' + 10
      else if CHR ''A'' \<le> c \<and> c \<le> CHR ''F'' then of_char c - of_char CHR ''A'' + 10
      else 0)"

definition upperhex :: string where
  "upperhex = ''0123456789ABCDEF''"

definition shouldEscape :: "char \<Rightarrow> encoding \<Rightarrow> bool" where
  "shouldEscape c mode =
     (if (CHR ''a'' \<le> c \<and> c \<le> CHR ''z'') \<or> (CHR ''A'' \<le> c \<and> c \<le> CHR ''Z'')
          \<or> (CHR ''0'' \<le> c \<and> c \<le> CHR ''9'') then False
      else if (mode = encodeHost \<or> mode = encodeZone) \<and> c \<in> set ''!$&'()*+,;=:[]<>\"'' then False
      else if c \<in> set ''-_.~'' then False
      else if c \<in> set ''$&+,/:;=?@'' \<and> mode = encodePath then c = CHR ''?''
      else if c \<in> set ''$&+,/:;=?@'' \<and> mode = encodePathSegment then c \<in> set ''/;,?''
      else if c \<in> set ''$&+,/:;=?@'' \<and> mode = encodeUserPassword then c \<in> set ''@/?:''
      else if c \<in> set ''$&+,/:;=?@'' \<and> mode = encodeQueryComponent then True
      else if c \<in> set ''$&+,/:;=?@'' \<and> mode = encodeFragment then False
      else if mode = encodeFragment \<and> c \<in> set ''!()*'' then False
      else True)"

text \<open>
  \<^verbatim>\<open>escape\<close>: Go first counts the bytes to escape and returns \<open>s\<close> itself when there is
  none; otherwise it rebuilds the string byte by byte, which is what \<open>escape\<close> does (with
  nothing to escape the rebuilt string is \<open>s\<close>).
\<close>

definition escape_byte :: "encoding \<Rightarrow> char \<Rightarrow> string" where
  "escape_byte mode c =
     (if c = CHR '' '' \<and> mode = encodeQueryComponent then ''+''
      else if shouldEscape c mode then
        [CHR ''%'', upperhex ! (of_char c div 16), upperhex ! (of_char c mod 16)]
      else [c])"

definition escape :: "string \<Rightarrow> encoding \<Rightarrow> string" where
  "escape s mode = concat (map (escape_byte mode) s)"

text \<open>
  \<^verbatim>\<open>unescape\<close>: Go validates the whole string in a first pass (returning the error of the
  first offending position) and decodes in a second.  The recursion below checks a position
  before it looks at the rest, so it reports the same error, and decodes on the way back.
\<close>

fun unescape :: "string \<Rightarrow> encoding \<Rightarrow> error + string" where
  "unescape [] mode = Inr []"
| "unescape (c # s) mode =
     (if c = CHR ''%'' then
        (case s of
           h1 # h2 # rest \<Rightarrow>
             if \<not> (ishex h1 \<and> ishex h2) then Inl (EscapeError (take 3 (c # s)))
             else if mode = encodeHost \<and> unhex h1 < 8 \<and> [c, h1, h2] \<noteq> ''%25'' then
               Inl (EscapeError [c, h1, h2])
             else if mode = encodeZone \<and> [c, h1, h2] \<noteq> ''%25''
                     \<and> char_of (unhex h1 * 16 + unhex h2) \<noteq> CHR '' ''
                     \<and> shouldEscape (char_of (unhex h1 * 16 + unhex h2)) encodeHost then
               Inl (EscapeError [c, h1, h2])
             else
               (case unescape rest mode of
                  Inl e \<Rightarrow> Inl e
                | Inr t \<Rightarrow> Inr (char_of (unhex h1 * 16 + unhex h2) # t))
         | _ \<Rightarrow> Inl (EscapeError (take 3 (c # s))))
      else if c = CHR ''+'' then
        (case unescape s mode of
           Inl e \<Rightarrow> Inl e
         | Inr t \<Rightarrow> Inr ((if mode = encodeQueryComponent then CHR '' '' else CHR ''+'') # t))
      else if (mode = encodeHost \<or> mode = encodeZone) \<and> c < char_of (128::nat)
              \<and> shouldEscape c encodeHost then
        Inl (InvalidHostError [c])
      else
        (case unescape s mode of
           Inl e \<Rightarrow> Inl e
         | Inr t \<Rightarrow> Inr (c # t)))"

definition url_QueryEscape :: "string \<Rightarrow> string" where
  "url_QueryEscape s = escape s encodeQueryComponent"

definition url_QueryUnescape :: "string \<Rightarrow> error + string" where
  "url_QueryUnescape s = unescape s encodeQueryComponent"

subsection \<open>Package net/url: Values\<close>

text \<open>
  \<^verbatim>\<open>type Values map[string][]string\<close>: a finite map.  Indexing a Go map at an absent key
  gives the nil slice.
\<close>

type_synonym url_Values = "(string, string list) fmap"

definition Values_index :: "url_Values \<Rightarrow> string \<Rightarrow> string list" where
  "Values_index v key = (case fmlookup v key of None \<Rightarrow> [] | Some vs \<Rightarrow> vs)"

text \<open>\<^verbatim>\<open>func (v Values) Add(key, value string) { v[key] = append(v[key], value) }\<close>\<close>

definition Values_Add :: "url_Values \<Rightarrow> string \<Rightarrow> string \<Rightarrow> url_Values" where
  "Values_Add v key val = fmupd key (Values_index v key @ [val]) v"

text \<open>
  \<^verbatim>\<open>func (v Values) Encode() string\<close>: the keys are collected and sorted
  (\<^verbatim>\<open>slices.Sort(keys)\<close>, byte-wise), then every value of every key is written as
  \<^verbatim>\<open>key=value\<close>, both query-escaped, with \<^verbatim>\<open>&\<close> before it when the buffer is not empty.
\<close>

fun encode_values :: "string \<Rightarrow> string list \<Rightarrow> string \<Rightarrow> string" where
  "encode_values keyEscaped [] buf = buf"
| "encode_values keyEscaped (v # vs) buf =
     encode_values keyEscaped vs
       ((if length buf > 0 then buf @ ''&'' else buf) @ keyEscaped @ ''='' @ url_QueryEscape v)"

fun encode_keys :: "url_Values \<Rightarrow> string list \<Rightarrow> string \<Rightarrow> string" where
  "encode_keys v [] buf = buf"
| "encode_keys v (k # keys) buf =
     encode_keys v keys (encode_values (url_QueryEscape k) (Values_index v k) buf)"

definition Values_Encode :: "url_Values \<Rightarrow> string" where
  "Values_Encode v =
     (if fmdom v = {||} then []
      else encode_keys v (sorted_list_of_fset (fmdom v)) [])"

text \<open>
  \<^verbatim>\<open>parseQuery\<close>: the loop \<^verbatim>\<open>for query != ""\<close> cuts one \<^verbatim>\<open>&\<close>-separated piece off per
  round.  A piece with a semicolon or a bad escape is skipped and an error remembered.
\<close>

function parseQuery :: "url_Values \<Rightarrow> string \<Rightarrow> error option \<Rightarrow> url_Values \<times> error option" where
  "parseQuery m query err =
     (if query = [] then (m, err)
      else
        (case strings_Cut query ''&'' of (key, rest, _) \<Rightarrow>
           if strings_Contains key '';'' then
             parseQuery m rest (Some (errorString ''invalid semicolon separator in query''))
           else if key = [] then parseQuery m rest err
           else
             (case strings_Cut key ''='' of (k, val, _) \<Rightarrow>
                (case url_QueryUnescape k of
                   Inl err1 \<Rightarrow> parseQuery m rest (if err = None then Some err1 else err)
                 | Inr k' \<Rightarrow>
                     (case url_QueryUnescape val of
                        Inl err1 \<Rightarrow> parseQuery m rest (if err = None then Some err1 else err)
                      | Inr val' \<Rightarrow> parseQuery (Values_Add m k' val') rest err)))))"
  by pat_completeness auto
termination
  by (relation "measure (\<lambda>(m, query, err). length query)")
    (auto simp: strings_Cut_def split: option.splits)

definition url_ParseQuery :: "string \<Rightarrow> url_Values \<times> error option" where
  "url_ParseQuery query = parseQuery fmempty query None"

subsection \<open>Package net/url: URL\<close>

record Userinfo =
  username :: string
  password :: string
  passwordSet :: bool

record url_URL =
  Scheme :: string
  Opaque :: string
  User :: "Userinfo option"
  Host :: string
  Path :: string
  RawPath :: string
  OmitHost :: bool
  ForceQuery :: bool
  RawQuery :: string
  Fragment :: string
  RawFragment :: string

text \<open>\<^verbatim>\<open>new(URL)\<close>: every field at its zero value.\<close>

definition new_URL :: url_URL where
  "new_URL = \<lparr>Scheme = [], Opaque = [], User = None, Host = [], Path = [], RawPath = [],
     OmitHost = False, ForceQuery = False, RawQuery = [], Fragment = [], RawFragment = []\<rparr>"

fun getScheme_loop :: "string \<Rightarrow> nat \<Rightarrow> string \<Rightarrow> error + string \<times> string" where
  "getScheme_loop rawURL i [] = Inr ([], rawURL)"
| "getScheme_loop rawURL i (c # cs) =
     (if (CHR ''a'' \<le> c \<and> c \<le> CHR ''z'') \<or> (CHR ''A'' \<le> c \<and> c \<le> CHR ''Z'') then
        getScheme_loop rawURL (Suc i) cs
      else if (CHR ''0'' \<le> c \<and> c \<le> CHR ''9'') \<or> c = CHR ''+'' \<or> c = CHR ''-'' \<or> c = CHR ''.'' then
        (if i = 0 then Inr ([], rawURL) else getScheme_loop rawURL (Suc i) cs)
      else if c = CHR '':'' then
        (if i = 0 then Inl (errorString ''missing protocol scheme'')
         else Inr (take i rawURL, drop (Suc i) rawURL))
      else Inr ([], rawURL))"

definition getScheme :: "string \<Rightarrow> error + string \<times> string" where
  "getScheme rawURL = getScheme_loop rawURL 0 rawURL"

definition stringContainsCTLByte :: "string \<Rightarrow> bool" where
  "stringContainsCTLByte s = list_ex (\<lambda>b. b < CHR '' '' \<or> b = char_of (127::nat)) s"

definition validOptionalPort :: "string \<Rightarrow> bool" where
  "validOptionalPort port =
     (case port of
        [] \<Rightarrow> True
      | c # ds \<Rightarrow> if c \<noteq> CHR '':'' then False
                  else list_all (\<lambda>b. CHR ''0'' \<le> b \<and> b \<le> CHR ''9'') ds)"

definition validUserinfo :: "string \<Rightarrow> bool" where
  "validUserinfo s =
     list_all (\<lambda>r. (CHR ''A'' \<le> r \<and> r \<le> CHR ''Z'') \<or> (CHR ''a'' \<le> r \<and> r \<le> CHR ''z'')
                 \<or> (CHR ''0'' \<le> r \<and> r \<le> CHR ''9'') \<or> r \<in> set ''-._:~!$&'()*+,;=%@'') s"

definition parseHost :: "string \<Rightarrow> error + string" where
  "parseHost host =
     (if strings_HasPrefix host ''['' then
        (case strings_LastIndex host '']'' of
           None \<Rightarrow> Inl (errorString ''missing ']' in host'')
         | Some i \<Rightarrow>
             if \<not> validOptionalPort (drop (i + 1) host) then Inl (invalidPort (drop (i + 1) host))
             else
               (case strings_Index (take i host) ''%25'' of
                  Some zone \<Rightarrow>
                    (case unescape (take zone host) encodeHost of
                       Inl e \<Rightarrow> Inl e
                     | Inr host1 \<Rightarrow>
                         (case unescape (drop zone (take i host)) encodeZone of
                            Inl e \<Rightarrow> Inl e
                          | Inr host2 \<Rightarrow>
                              (case unescape (drop i host) encodeHost of
                                 Inl e \<Rightarrow> Inl e
                               | Inr host3 \<Rightarrow> Inr (host1 @ host2 @ host3))))
                | None \<Rightarrow> unescape host encodeHost))
      else
        (case strings_LastIndex host '':'' of
           Some i \<Rightarrow>
             if \<not> validOptionalPort (drop i host) then Inl (invalidPort (drop i host))
             else unescape host encodeHost
         | None \<Rightarrow> unescape host encodeHost))"

definition parseAuthority :: "string \<Rightarrow> error + Userinfo option \<times> string" where
  "parseAuthority authority =
     (case strings_LastIndex authority ''@'' of
        None \<Rightarrow>
          (case parseHost authority of Inl e \<Rightarrow> Inl e | Inr host \<Rightarrow> Inr (None, host))
      | Some i \<Rightarrow>
          (case parseHost (drop (i + 1) authority) of
             Inl e \<Rightarrow> Inl e
           | Inr host \<Rightarrow>
               let userinfo = take i authority in
               if \<not> validUserinfo userinfo then Inl (errorString ''net/url: invalid userinfo'')
               else if \<not> strings_Contains userinfo '':'' then
                 (case unescape userinfo encodeUserPassword of
                    Inl e \<Rightarrow> Inl e
                  | Inr u \<Rightarrow> Inr (Some \<lparr>username = u, password = [], passwordSet = False\<rparr>, host))
               else
                 (case strings_Cut userinfo '':'' of (uname, pw, _) \<Rightarrow>
                    (case unescape uname encodeUserPassword of
                       Inl e \<Rightarrow> Inl e
                     | Inr u \<Rightarrow>
                         (case unescape pw encodeUserPassword of
                            Inl e \<Rightarrow> Inl e
                          | Inr p \<Rightarrow>
                              Inr (Some \<lparr>username = u, password = p, passwordSet = True\<rparr>, host))))))"

definition setPath :: "url_URL \<Rightarrow> string \<Rightarrow> error + url_URL" where
  "setPath u p =
     (case unescape p encodePath of
        Inl e \<Rightarrow> Inl e
      | Inr path \<Rightarrow>
          if p = escape path encodePath then Inr (u\<lparr>Path := path, RawPath := []\<rparr>)
          else Inr (u\<lparr>Path := path, RawPath := p\<rparr>))"

definition setFragment :: "url_URL \<Rightarrow> string \<Rightarrow> error + url_URL" where
  "setFragment u f =
     (case unescape f encodeFragment of
        Inl e \<Rightarrow> Inl e
      | Inr frag \<Rightarrow>
          if f = escape frag encodeFragment then Inr (u\<lparr>Fragment := frag, RawFragment := []\<rparr>)
          else Inr (u\<lparr>Fragment := frag, RawFragment := f\<rparr>))"

text \<open>
  \<^verbatim>\<open>func parse(rawURL string, viaRequest bool) (*URL, error)\<close>.  The package reaches it
  through \<^verbatim>\<open>url.Parse\<close> only, with \<^verbatim>\<open>viaRequest = false\<close>.
\<close>

definition parse_authority_path :: "url_URL \<Rightarrow> string \<Rightarrow> bool \<Rightarrow> error + url_URL" where
  "parse_authority_path url rest viaRequest =
     (if (Scheme url \<noteq> [] \<or> (\<not> viaRequest \<and> \<not> strings_HasPrefix rest ''///''))
          \<and> strings_HasPrefix rest ''//'' then
        (let authority0 = drop 2 rest;
             (authority, rest') =
               (case strings_Index authority0 ''/'' of
                  Some i \<Rightarrow> (take i authority0, drop i authority0)
                | None \<Rightarrow> (authority0, []))
         in case parseAuthority authority of
              Inl e \<Rightarrow> Inl e
            | Inr (user, host) \<Rightarrow> setPath (url\<lparr>User := user, Host := host\<rparr>) rest')
      else if Scheme url \<noteq> [] \<and> strings_HasPrefix rest ''/'' then
        setPath (url\<lparr>OmitHost := True\<rparr>) rest
      else setPath url rest)"

definition parse :: "string \<Rightarrow> bool \<Rightarrow> error + url_URL" where
  "parse rawURL viaRequest =
     (if stringContainsCTLByte rawURL then
        Inl (errorString ''net/url: invalid control character in URL'')
      else if rawURL = [] \<and> viaRequest then Inl (errorString ''empty url'')
      else if rawURL = ''*'' then Inr (new_URL\<lparr>Path := ''*''\<rparr>)
      else
        (case getScheme rawURL of
           Inl e \<Rightarrow> Inl e
         | Inr (scheme, rest0) \<Rightarrow>
             let url0 = new_URL\<lparr>Scheme := strings_ToLower scheme\<rparr>;
                 (rest, url) =
                   (if strings_HasSuffix rest0 ''?'' \<and> strings_Count rest0 ''?'' = 1 then
                      (take (length rest0 - 1) rest0, url0\<lparr>ForceQuery := True\<rparr>)
                    else
                      (case strings_Cut rest0 ''?'' of (r, q, _) \<Rightarrow> (r, url0\<lparr>RawQuery := q\<rparr>)))
             in
               if \<not> strings_HasPrefix rest ''/'' \<and> Scheme url \<noteq> [] then Inr (url\<lparr>Opaque := rest\<rparr>)
               else if \<not> strings_HasPrefix rest ''/'' \<and> viaRequest then
                 Inl (errorString ''invalid URI for request'')
               else if \<not> strings_HasPrefix rest ''/''
                       \<and> strings_Contains (fst (strings_Cut rest ''/'')) '':'' then
                 Inl (errorString ''first path segment in URL cannot contain colon'')
               else parse_authority_path url rest viaRequest))"

text \<open>\<^verbatim>\<open>func Parse(rawURL string) (*URL, error)\<close>\<close>

definition url_Parse :: "string \<Rightarrow> error + url_URL" where
  "url_Parse rawURL =
     (case strings_Cut rawURL ''#'' of (u, frag, _) \<Rightarrow>
        (case parse u False of
           Inl e \<Rightarrow> Inl (url_Error ''parse'' u e)
         | Inr url \<Rightarrow>
             if frag = [] then Inr url
             else
               (case setFragment url frag of
                  Inl e \<Rightarrow> Inl (url_Error ''parse'' rawURL e)
                | Inr url' \<Rightarrow> Inr url')))"

definition validEncoded :: "string \<Rightarrow> encoding \<Rightarrow> bool" where
  "validEncoded s mode =
     list_all (\<lambda>c. if c \<in> set ''!$&'()*+,;=:@[]%'' then True else \<not> shouldEscape c mode) s"

definition URL_EscapedPath :: "url_URL \<Rightarrow> string" where
  "URL_EscapedPath u =
     (if RawPath u \<noteq> [] \<and> validEncoded (RawPath u) encodePath
         \<and> unescape (RawPath u) encodePath = Inr (Path u) then RawPath u
      else if Path u = ''*'' then ''*''
      else escape (Path u) encodePath)"

definition URL_EscapedFragment :: "url_URL \<Rightarrow> string" where
  "URL_EscapedFragment u =
     (if RawFragment u \<noteq> [] \<and> validEncoded (RawFragment u) encodeFragment
         \<and> unescape (RawFragment u) encodeFragment = Inr (Fragment u) then RawFragment u
      else escape (Fragment u) encodeFragment)"

definition Userinfo_String :: "Userinfo option \<Rightarrow> string" where
  "Userinfo_String u =
     (case u of
        None \<Rightarrow> []
      | Some ui \<Rightarrow>
          escape (username ui) encodeUserPassword
            @ (if passwordSet ui then '':'' @ escape (password ui) encodeUserPassword else []))"

text \<open>
  \<^verbatim>\<open>func (u *URL) String() string\<close> writes into a buffer: the scheme, then either the opaque
  part or authority and path, then the query, then the fragment.  \<open>URL_String_hier\<close> is the
  buffer after the scheme and the authority or opaque part and the path are written.
\<close>

definition URL_String_authority :: "url_URL \<Rightarrow> string" where
  "URL_String_authority u =
     (if Scheme u \<noteq> [] \<or> Host u \<noteq> [] \<or> User u \<noteq> None then
        (if OmitHost u \<and> Host u = [] \<and> User u = None then []
         else
           (if Host u \<noteq> [] \<or> Path u \<noteq> [] \<or> User u \<noteq> None then ''//'' else [])
             @ (if User u \<noteq> None then Userinfo_String (User u) @ ''@'' else [])
             @ (if Host u \<noteq> [] then escape (Host u) encodeHost else []))
      else [])"

definition URL_String_hier :: "url_URL \<Rightarrow> string" where
  "URL_String_hier u =
     (let buf0 = (if Scheme u \<noteq> [] then Scheme u @ '':'' else [])
      in if Opaque u \<noteq> [] then buf0 @ Opaque u
         else
           (let buf1 = buf0 @ URL_String_authority u;
                path = URL_EscapedPath u;
                buf2 = (if path \<noteq> [] \<and> hd path \<noteq> CHR ''/'' \<and> Host u \<noteq> [] then buf1 @ ''/'' else buf1);
                buf3 = (if length buf2 = 0 \<and> strings_Contains (fst (strings_Cut path ''/'')) '':''
                        then buf2 @ ''./'' else buf2)
            in buf3 @ path))"

definition URL_String_query :: "url_URL \<Rightarrow> string" where
  "URL_String_query u = (if ForceQuery u \<or> RawQuery u \<noteq> [] then ''?'' @ RawQuery u else [])"

definition URL_String_fragment :: "url_URL \<Rightarrow> string" where
  "URL_String_fragment u = (if Fragment u \<noteq> [] then ''#'' @ URL_EscapedFragment u else [])"

definition URL_String :: "url_URL \<Rightarrow> string" where
  "URL_String u = URL_String_hier u @ URL_String_query u @ URL_String_fragment u"

text \<open>\<^verbatim>\<open>func (u *URL) Query() Values { v, _ := ParseQuery(u.RawQuery); return v }\<close>\<close>

definition URL_Query :: "url_URL \<Rightarrow> url_Values" where
  "URL_Query u = fst (url_ParseQuery (RawQuery u))"

subsection \<open>Package net/http: Header, Request, Response\<close>

text \<open>
  \<^verbatim>\<open>type Header map[string][]string\<close>.  \<^verbatim>\<open>Add\<close>, \<^verbatim>\<open>Set\<close> and \<^verbatim>\<open>Get\<close> canonicalise the key
  with \<^verbatim>\<open>textproto.CanonicalMIMEHeaderKey\<close>: a key with a byte that is not a token byte is
  left as it is; otherwise the first letter and every letter after a hyphen is made upper
  case and every other letter lower case.
\<close>

type_synonym http_Header = "(string, string list) fmap"

definition isTokenByte :: "char \<Rightarrow> bool" where
  "isTokenByte c =
     ((CHR ''a'' \<le> c \<and> c \<le> CHR ''z'') \<or> (CHR ''A'' \<le> c \<and> c \<le> CHR ''Z'')
      \<or> (CHR ''0'' \<le> c \<and> c \<le> CHR ''9'') \<or> c \<in> set ''!#$%&'*+-.^_|~'' \<or> c = CHR 0x60)"

fun canonical_bytes :: "bool \<Rightarrow> string \<Rightarrow> string" where
  "canonical_bytes upper [] = []"
| "canonical_bytes upper (c # cs) =
     (let c' = (if upper \<and> CHR ''a'' \<le> c \<and> c \<le> CHR ''z'' then char_of (of_char c - (32::nat))
                else if \<not> upper \<and> CHR ''A'' \<le> c \<and> c \<le> CHR ''Z'' then char_of (of_char c + (32::nat))
                else c)
      in c' # canonical_bytes (c' = CHR ''-'') cs)"

definition CanonicalMIMEHeaderKey :: "string \<Rightarrow> string" where
  "CanonicalMIMEHeaderKey s = (if list_all isTokenByte s then canonical_bytes True s else s)"

definition Header_Add :: "http_Header \<Rightarrow> string \<Rightarrow> string \<Rightarrow> http_Header" where
  "Header_Add h key val =
     (let k = CanonicalMIMEHeaderKey key in fmupd k (Values_index h k @ [val]) h)"

definition Header_Set :: "http_Header \<Rightarrow> string \<Rightarrow> string \<Rightarrow> http_Header" where
  "Header_Set h key val = fmupd (CanonicalMIMEHeaderKey key) [val] h"

definition Header_Get :: "http_Header \<Rightarrow> string \<Rightarrow> string" where
  "Header_Get h key =
     (case Values_index h (CanonicalMIMEHeaderKey key) of [] \<Rightarrow> [] | v # _ \<Rightarrow> v)"

text \<open>
  A \<^verbatim>\<open>context.Context\<close> is opaque to the package: it is handed to the request.  \<open>None\<close> is
  the nil context.
\<close>

datatype Context = Context nat

text \<open>
  The fields of \<^verbatim>\<open>http.Request\<close> that \<^verbatim>\<open>NewRequestWithContext\<close> fills from its arguments.
  \<open>req_Body\<close> holds the bytes the body reader delivers, \<open>None\<close> for a request without body.
\<close>

record http_Request =
  req_ctx :: Context
  req_Method :: string
  req_URL :: url_URL
  req_Header :: http_Header
  req_Body :: "string option"
  req_Host :: string

definition validMethod :: "string \<Rightarrow> bool" where
  "validMethod m = (length m > 0 \<and> list_all isTokenByte m)"

definition index_int :: "nat option \<Rightarrow> int" where
  "index_int i = (case i of None \<Rightarrow> - 1 | Some n \<Rightarrow> int n)"

definition removeEmptyPort :: "string \<Rightarrow> string" where
  "removeEmptyPort host =
     (if index_int (strings_LastIndex host '':'') > index_int (strings_LastIndex host '']'')
      then strings_TrimSuffix host '':'' else host)"

definition http_NewRequestWithContext ::
  "Context option \<Rightarrow> string \<Rightarrow> string \<Rightarrow> string option \<Rightarrow> error + http_Request" where
  "http_NewRequestWithContext ctx method0 url rbody =
     (let method = (if method0 = [] then ''GET'' else method0) in
      if \<not> validMethod method then Inl (invalidMethod method)
      else
        (case ctx of
           None \<Rightarrow> Inl (errorString ''net/http: nil Context'')
         | Some cx \<Rightarrow>
             (case url_Parse url of
                Inl e \<Rightarrow> Inl e
              | Inr u \<Rightarrow>
                  Inr \<lparr>req_ctx = cx, req_Method = method,
                       req_URL = u\<lparr>Host := removeEmptyPort (Host u)\<rparr>,
                       req_Header = fmempty, req_Body = rbody,
                       req_Host = removeEmptyPort (Host u)\<rparr>)))"

text \<open>
  An \<^verbatim>\<open>io.ReadCloser\<close>: the bytes it still delivers, the error its \<^verbatim>\<open>Read\<close> returns after them
  (\<open>None\<close> for \<^verbatim>\<open>io.EOF\<close>), and whether \<^verbatim>\<open>Close\<close> was called.  \<^verbatim>\<open>io.ReadAll\<close> returns the bytes
  read and the error (nil at end of file) and leaves the stream drained.
\<close>

record io_ReadCloser =
  pending :: string
  failure :: "error option"
  closed :: bool

definition io_ReadAll :: "io_ReadCloser \<Rightarrow> (string \<times> error option) \<times> io_ReadCloser" where
  "io_ReadAll r = ((pending r, failure r), r\<lparr>pending := []\<rparr>)"

definition io_Close :: "io_ReadCloser \<Rightarrow> io_ReadCloser" where
  "io_Close r = r\<lparr>closed := True\<rparr>"

record http_Response =
  resp_StatusCode :: int
  resp_Status :: string
  resp_Body :: io_ReadCloser

subsection \<open>response.go: the wrapper\<close>

text \<open>
  \<^verbatim>\<open>type Response struct { resp *http.Response; err error }\<close>.  An accessor that reads or
  closes the body stream returns the wrapper with the stream as it leaves it.  With both
  fields nil (the zero \<^verbatim>\<open>Response\<close>) \<^verbatim>\<open>r.resp.Body\<close> dereferences a nil pointer.
\<close>

record Response =
  resp :: "http_Response option"
  err :: "error option"

datatype panic = nil_pointer_dereference

text \<open>\<^verbatim>\<open>func (r *Response) Raw() ([]byte, error)\<close>; \<open>None\<close> is the nil slice.\<close>

definition Raw :: "Response \<Rightarrow> panic + (string option \<times> error option) \<times> Response" where
  "Raw r =
     (case err r of
        Some e \<Rightarrow> Inr ((None, Some e), r)
      | None \<Rightarrow>
          (case resp r of
             None \<Rightarrow> Inl nil_pointer_dereference
           | Some rs \<Rightarrow>
               (case io_ReadAll (resp_Body rs) of
                  ((data, e), b) \<Rightarrow>
                    Inr ((Some data, e), r\<lparr>resp := Some (rs\<lparr>resp_Body := io_Close b\<rparr>)\<rparr>))))"

text \<open>\<^verbatim>\<open>func (r *Response) Body() (io.ReadCloser, error)\<close>\<close>

definition Response_Body :: "Response \<Rightarrow> panic + (io_ReadCloser option \<times> error option) \<times> Response" where
  "Response_Body r =
     (case err r of
        Some e \<Rightarrow> Inr ((None, Some e), r)
      | None \<Rightarrow>
          (case resp r of
             None \<Rightarrow> Inl nil_pointer_dereference
           | Some rs \<Rightarrow> Inr ((Some (resp_Body rs), None), r)))"

text \<open>\<^verbatim>\<open>func (r *Response) Error() error\<close>\<close>

definition Response_Error :: "Response \<Rightarrow> error option" where
  "Response_Error r = err r"

text \<open>
  \<^verbatim>\<open>func Into[T any](r *Response) (T, error)\<close>.  \<open>zero\<close> is the zero value of \<open>T\<close>
  (\<^verbatim>\<open>var res T\<close>); \<open>json_Decode\<close> stands for \<^verbatim>\<open>json.NewDecoder(body).Decode(&res)\<close>: from the
  stream and the initial value to the value, the error and the stream after decoding.
\<close>

definition Into ::
  "'t \<Rightarrow> (io_ReadCloser \<Rightarrow> 't \<Rightarrow> ('t \<times> error option) \<times> io_ReadCloser) \<Rightarrow> Response
     \<Rightarrow> panic + ('t \<times> error option) \<times> Response" where
  "Into zero json_Decode r =
     (case err r of
        Some e \<Rightarrow> Inr ((zero, Some e), r)
      | None \<Rightarrow>
          (case resp r of
             None \<Rightarrow> Inl nil_pointer_dereference
           | Some rs \<Rightarrow>
               (case json_Decode (resp_Body rs) zero of
                  ((res, e), b) \<Rightarrow>
                    Inr ((res, e), r\<lparr>resp := Some (rs\<lparr>resp_Body := io_Close b\<rparr>)\<rparr>))))"

subsection \<open>client.go: the builder\<close>

text \<open>
  \<^verbatim>\<open>httpClient\<close> is the one-method interface \<^verbatim>\<open>Do(req) (*http.Response, error)\<close>: the
  transport, a function of the request.

  \<^verbatim>\<open>Client\<close> (client.go, lines 45-51).  \<open>body\<close> is of type \<^verbatim>\<open>any\<close>: \<open>None\<close> is the nil
  interface, \<open>Some v\<close> a value the caller set.  A client is made by \<open>New\<close> and changed by
  the mutators, so its two maps are allocated and its transport is not nil.
\<close>

type_synonym httpClient = "http_Request \<Rightarrow> error + http_Response"

record 'b Client =
  baseURL :: string
  params :: url_Values
  headers :: http_Header
  client :: httpClient
  body :: "'b option"

text \<open>\<^verbatim>\<open>func New() *Client\<close>; the argument stands for \<^verbatim>\<open>http.DefaultClient\<close>.\<close>

definition New :: "httpClient \<Rightarrow> 'b Client" where
  "New http_DefaultClient =
     \<lparr>baseURL = [], params = fmempty, headers = fmempty, client = http_DefaultClient, body = None\<rparr>"

definition BaseURL :: "string \<Rightarrow> 'b Client \<Rightarrow> 'b Client" where
  "BaseURL b c = c\<lparr>baseURL := b\<rparr>"

definition Query :: "string \<Rightarrow> string \<Rightarrow> 'b Client \<Rightarrow> 'b Client" where
  "Query key val c = c\<lparr>params := Values_Add (params c) key val\<rparr>"

definition Header :: "string \<Rightarrow> string \<Rightarrow> 'b Client \<Rightarrow> 'b Client" where
  "Header key val c = c\<lparr>headers := Header_Add (headers c) key val\<rparr>"

definition HTTPClient :: "httpClient \<Rightarrow> 'b Client \<Rightarrow> 'b Client" where
  "HTTPClient t c = c\<lparr>client := t\<rparr>"

definition Client_Body :: "'b option \<Rightarrow> 'b Client \<Rightarrow> 'b Client" where
  "Client_Body b c = c\<lparr>body := b\<rparr>"

definition Reset :: "'b Client \<Rightarrow> 'b Client" where
  "Reset c = c\<lparr>params := fmempty, headers := fmempty, body := None\<rparr>"

text \<open>
  The two nested \<^verbatim>\<open>range\<close> loops of \<open>fullURL\<close> (lines 202-206) and of \<open>do\<close> (lines 154-158):
  for every key of the map \<open>src\<close> and every value under it, in order, \<open>add dst k v\<close>.
  Go visits the keys of a map in an order it does not specify; \<open>range_add\<close> takes the
  order as the list \<open>ks\<close>, and the functions below pass the sorted keys.  For
  \<open>Values_Add\<close>, lemma \<open>range_add_index\<close> shows that the map built is the same for
  every order.  For \<open>Header_Add\<close> the same holds as long as no two keys of \<^verbatim>\<open>c.headers\<close>
  have the same canonical form; \<open>Header\<close> stores canonical keys only.
\<close>

fun range_values ::
  "(url_Values \<Rightarrow> string \<Rightarrow> string \<Rightarrow> url_Values) \<Rightarrow> url_Values \<Rightarrow> string \<Rightarrow> string list \<Rightarrow> url_Values" where
  "range_values add dst k [] = dst"
| "range_values add dst k (v # vals) = range_values add (add dst k v) k vals"

fun range_add ::
  "(url_Values \<Rightarrow> string \<Rightarrow> string \<Rightarrow> url_Values) \<Rightarrow> url_Values \<Rightarrow> string list \<Rightarrow> url_Values \<Rightarrow> url_Values" where
  "range_add add src [] dst = dst"
| "range_add add src (k # ks) dst = range_add add src ks (range_values add dst k (Values_index src k))"

text \<open>\<^verbatim>\<open>func (c *Client) fullURL(path string) (string, error)\<close> (lines 193-222).\<close>

definition fullURL :: "'b Client \<Rightarrow> string \<Rightarrow> error + string" where
  "fullURL c path =
     (if baseURL c = [] then
        (case url_Parse path of
           Inl e \<Rightarrow> Inl (wrapError ''invalid URL: '' e)
         | Inr u \<Rightarrow>
             (let q = range_add Values_Add (params c) (sorted_list_of_fset (fmdom (params c))) (URL_Query u)
              in Inr (URL_String (u\<lparr>RawQuery := Values_Encode q\<rparr>))))
      else
        (case url_Parse (baseURL c) of
           Inl e \<Rightarrow> Inl (wrapError ''invalid baseURL: '' e)
         | Inr u \<Rightarrow>
             Inr (URL_String
                    (u\<lparr>Path := strings_TrimSuffix (Path u) ''/'' @ ''/'' @ strings_TrimPrefix path ''/'',
                       RawQuery := Values_Encode (params c)\<rparr>))))"

text \<open>
  \<^verbatim>\<open>func (c *Client) do(ctx, method, path string) *Response\<close> (lines 128-188), in two parts.
  \<open>do_prepare\<close> is lines 129-158: it ends with the values of \<^verbatim>\<open>fullURL\<close> and \<^verbatim>\<open>req\<close> that
  line 160 hands to the transport, or with the error of an early return.  \<open>json_Marshal\<close>
  stands for \<^verbatim>\<open>json.Marshal\<close> on a body value.
\<close>

definition do_prepare ::
  "('b \<Rightarrow> error + string) \<Rightarrow> 'b Client \<Rightarrow> Context option \<Rightarrow> string \<Rightarrow> string
     \<Rightarrow> error + string \<times> http_Request" where
  "do_prepare json_Marshal c ctx method path =
     (case fullURL c path of
        Inl e \<Rightarrow> Inl e
      | Inr full \<Rightarrow>
          (case (case body c of
                   None \<Rightarrow> Inr None
                 | Some v \<Rightarrow> (case json_Marshal v of Inl e \<Rightarrow> Inl e | Inr b \<Rightarrow> Inr (Some b))) of
             Inl e \<Rightarrow> Inl e
           | Inr rbody \<Rightarrow>
               (case http_NewRequestWithContext ctx method full rbody of
                  Inl e \<Rightarrow> Inl e
                | Inr req \<Rightarrow>
                    (let req1 =
                           (if body c \<noteq> None \<and> Header_Get (req_Header req) ''Content-Type'' = []
                            then req\<lparr>req_Header :=
                                       Header_Set (req_Header req) ''Content-Type'' ''application/json''\<rparr>
                            else req);
                         req2 =
                           req1\<lparr>req_Header :=
                                  range_add Header_Add (headers c)
                                    (sorted_list_of_fset (fmdom (headers c))) (req_Header req1)\<rparr>
                     in Inr (full, req2)))))"

text \<open>
  \<open>do\<close> returns the wrapper and the client as the call leaves it (\<open>do\<close> writes \<^verbatim>\<open>c.body\<close>).
  On a status outside 200..299 the body is read and closed inside \<open>do\<close>; the response is
  not kept.
\<close>

definition do ::
  "('b \<Rightarrow> error + string) \<Rightarrow> 'b Client \<Rightarrow> Context option \<Rightarrow> string \<Rightarrow> string
     \<Rightarrow> Response \<times> 'b Client" where
  "do json_Marshal c ctx method path =
     (case do_prepare json_Marshal c ctx method path of
        Inl e \<Rightarrow> (\<lparr>resp = None, err = Some e\<rparr>, c)
      | Inr (full, req) \<Rightarrow>
          (case client c req of
             Inl e \<Rightarrow> (\<lparr>resp = None, err = Some e\<rparr>, c)
           | Inr rs \<Rightarrow>
               if resp_StatusCode rs < 200 \<or> resp_StatusCode rs \<ge> 300 then
                 (case io_ReadAll (resp_Body rs) of
                    ((data, Some e), _) \<Rightarrow> (\<lparr>resp = None, err = Some e\<rparr>, c)
                  | ((data, None), _) \<Rightarrow>
                      (\<lparr>resp = None,
                        err = Some (HTTPError_ptr
                                \<lparr>StatusCode = resp_StatusCode rs, Status = resp_Status rs,
                                 Method = method, URL = full, Body = data\<rparr>)\<rparr>, c))
               else (\<lparr>resp = Some rs, err = None\<rparr>, c\<lparr>body := None\<rparr>)))"

definition Get ::
  "('b \<Rightarrow> error + string) \<Rightarrow> 'b Client \<Rightarrow> Context option \<Rightarrow> string \<Rightarrow> Response \<times> 'b Client" where
  "Get json_Marshal c ctx path = do json_Marshal c ctx ''GET'' path"

definition Post ::
  "('b \<Rightarrow> error + string) \<Rightarrow> 'b Client \<Rightarrow> Context option \<Rightarrow> string \<Rightarrow> Response \<times> 'b Client" where
  "Post json_Marshal c ctx path = do json_Marshal c ctx ''POST'' path"

subsection \<open>Notions used in the statements\<close>

text \<open>
  The text \<^verbatim>\<open>key=value\<close> of one query parameter, both parts query-escaped, and the join
  of such texts with \<^verbatim>\<open>&\<close>.
\<close>

definition pair_encode :: "string \<times> string \<Rightarrow> string" where
  "pair_encode p = url_QueryEscape (fst p) @ ''='' @ url_QueryEscape (snd p)"

fun join_amp :: "string list \<Rightarrow> string" where
  "join_amp [] = []"
| "join_amp [s] = s"
| "join_amp (s # t # ss) = s @ ''&'' @ join_amp (t # ss)"

text \<open>The key-value pairs of a \<open>Values\<close> map: keys in sorted order, each with its values in order.\<close>

definition Values_pairs :: "url_Values \<Rightarrow> (string \<times> string) list" where
  "Values_pairs v =
     concat (map (\<lambda>k. map (Pair k) (Values_index v k)) (sorted_list_of_fset (fmdom v)))"

text \<open>A sequence of \<^verbatim>\<open>Query(key, value)\<close> calls on a client, first call first.\<close>

definition Query_calls :: "(string \<times> string) list \<Rightarrow> 'b Client \<Rightarrow> 'b Client" where
  "Query_calls calls c = fold (\<lambda>kv. Query (fst kv) (snd kv)) calls c"

subsection \<open>Transports, streams and codecs of the examples\<close>

definition stream_of :: "string \<Rightarrow> io_ReadCloser" where
  "stream_of s = \<lparr>pending = s, failure = None, closed = False\<rparr>"

definition broken_stream :: "string \<Rightarrow> error \<Rightarrow> io_ReadCloser" where
  "broken_stream s e = \<lparr>pending = s, failure = Some e, closed = False\<rparr>"

definition transport_fails :: httpClient where
  "transport_fails req = Inl (errorString ''dial tcp: connection refused'')"

definition transport_replies :: "int \<Rightarrow> string \<Rightarrow> io_ReadCloser \<Rightarrow> httpClient" where
  "transport_replies code status b req =
     Inr \<lparr>resp_StatusCode = code, resp_Status = status, resp_Body = b\<rparr>"

text \<open>\<^verbatim>\<open>json.Marshal\<close> on a Go string without characters that JSON escapes.\<close>

definition marshal_string :: "string \<Rightarrow> error + string" where
  "marshal_string s = Inr ([CHR 0x22] @ s @ [CHR 0x22])"

text \<open>A decoder that takes the whole stream as the value.\<close>

definition decode_all :: "io_ReadCloser \<Rightarrow> string \<Rightarrow> (string \<times> error option) \<times> io_ReadCloser" where
  "decode_all b z = io_ReadAll b"

section \<open>Lemmas about the library model\<close>

subsection \<open>What \<open>Values.Encode\<close> writes\<close>

lemma pair_encode_nonempty: "pair_encode p \<noteq> []"
  by (simp add: pair_encode_def)

lemma join_amp_Cons_nonempty: "s \<noteq> [] \<Longrightarrow> join_amp (s # ss) \<noteq> []"
  by (cases ss) auto

lemma join_amp_nonempty: "ps \<noteq> [] \<Longrightarrow> join_amp (map pair_encode ps) \<noteq> []"
  by (cases ps) (auto simp: pair_encode_nonempty join_amp_Cons_nonempty)

lemma join_amp_pairs_empty_iff: "join_amp (map pair_encode ps) = [] \<longleftrightarrow> ps = []"
  using join_amp_nonempty [of ps] by auto

lemma join_amp_snoc:
  "join_amp (ss @ [s]) = (if ss = [] then s else join_amp ss @ ''&'' @ s)"
  by (induction ss rule: join_amp.induct) auto

text \<open>The inner loop of \<open>Encode\<close> appends the pairs of one key to what the buffer holds.\<close>

lemma encode_values_join:
  "buf = join_amp (map pair_encode ps) \<Longrightarrow>
   encode_values (url_QueryEscape k) vs buf = join_amp (map pair_encode (ps @ map (Pair k) vs))"
proof (induction vs arbitrary: buf ps)
  case Nil
  then show ?case by simp
next
  case (Cons v vs)
  have pe: "url_QueryEscape k @ ''='' @ url_QueryEscape v = pair_encode (k, v)"
    by (simp add: pair_encode_def)
  have "(if length buf > 0 then buf @ ''&'' else buf) @ pair_encode (k, v)
          = join_amp (map pair_encode (ps @ [(k, v)]))"
  proof (cases "ps = []")
    case True
    with Cons.prems show ?thesis by simp
  next
    case False
    with Cons.prems join_amp_nonempty [OF False] show ?thesis
      by (simp add: join_amp_snoc)
  qed
  then have "(if length buf > 0 then buf @ ''&'' else buf) @ url_QueryEscape k @ ''='' @ url_QueryEscape v
          = join_amp (map pair_encode (ps @ [(k, v)]))"
    by (simp only: pe)
  from Cons.IH [OF this] show ?case by simp
qed

lemma encode_keys_join:
  "buf = join_amp (map pair_encode ps) \<Longrightarrow>
   encode_keys v ks buf
     = join_amp (map pair_encode (ps @ concat (map (\<lambda>k. map (Pair k) (Values_index v k)) ks)))"
proof (induction ks arbitrary: buf ps)
  case Nil
  then show ?case by simp
next
  case (Cons k ks)
  from Cons.IH [OF encode_values_join [OF Cons.prems]] show ?case by simp
qed

lemma Values_Encode_pairs: "Values_Encode v = join_amp (map pair_encode (Values_pairs v))"
proof (cases "fmdom v = {||}")
  case True
  then have "sorted_list_of_fset (fmdom v) = []"
    by (simp add: sorted_list_of_fset.rep_eq)
  with True show ?thesis by (simp add: Values_Encode_def Values_pairs_def)
next
  case False
  then show ?thesis
    using encode_keys_join [of "[]" "[]" v "sorted_list_of_fset (fmdom v)"]
    by (simp add: Values_Encode_def Values_pairs_def)
qed

lemma Values_Encode_empty_iff: "Values_Encode v = [] \<longleftrightarrow> Values_pairs v = []"
  using join_amp_nonempty [of "Values_pairs v"] by (auto simp: Values_Encode_pairs)

lemma sorted_keys_pairs:
  "sorted ks \<Longrightarrow> sorted (map fst (concat (map (\<lambda>k. map (Pair k) (f k)) ks)))"
proof (induction ks)
  case Nil
  then show ?case by simp
next
  case (Cons k ks)
  have sub: "set (map fst (concat (map (\<lambda>k. map (Pair k) (f k)) ks))) \<subseteq> set ks"
    by auto
  have rep: "map (fst \<circ> Pair k) (f k) = replicate (length (f k)) k"
    by (simp add: comp_def map_replicate_const)
  have "sorted (replicate (length (f k)) k)"
    by simp
  with Cons sub show ?case
    by (auto simp: sorted_append rep)
qed

lemma Values_pairs_sorted: "sorted (map fst (Values_pairs v))"
  unfolding Values_pairs_def
  by (rule sorted_keys_pairs) (simp add: sorted_list_of_fset.rep_eq)

lemma filter_key_pairs:
  "distinct ks \<Longrightarrow>
   map snd (filter (\<lambda>p. fst p = k) (concat (map (\<lambda>k. map (Pair k) (f k)) ks)))
     = (if k \<in> set ks then f k else [])"
proof (induction ks)
  case Nil
  then show ?case by simp
next
  case (Cons a ks)
  have "filter (\<lambda>p. fst p = k) (map (Pair a) (f a)) = (if a = k then map (Pair a) (f a) else [])"
    by (induction "f a") (auto simp: filter_empty_conv)
  with Cons show ?case
    by (auto simp: comp_def)
qed

lemma Values_index_notin: "k |\<notin>| fmdom v \<Longrightarrow> Values_index v k = []"
  by (simp add: Values_index_def fmdom_notD)

lemma Values_pairs_key:
  "map snd (filter (\<lambda>p. fst p = k) (Values_pairs v)) = Values_index v k"
  unfolding Values_pairs_def
  by (subst filter_key_pairs) (auto simp: sorted_list_of_fset.rep_eq Values_index_notin)

text \<open>The pairs of one key stand together, in the order of its values.\<close>

lemma Values_pairs_block:
  "\<exists>before after. Values_pairs v = before @ map (Pair k) (Values_index v k) @ after
           \<and> k \<notin> fst ` set before \<and> k \<notin> fst ` set after"
proof (cases "k |\<in>| fmdom v")
  case True
  let ?ks = "sorted_list_of_fset (fmdom v)"
  have d: "distinct ?ks" and m: "k \<in> set ?ks"
    using True by (simp_all add: sorted_list_of_fset.rep_eq)
  from split_list [OF m] obtain ks1 ks2 where split: "?ks = ks1 @ k # ks2"
    by blast
  from d have n1: "k \<notin> set ks1" and n2: "k \<notin> set ks2"
    unfolding split by auto
  let ?g = "\<lambda>ks. concat (map (\<lambda>k. map (Pair k) (Values_index v k)) ks)"
  have "Values_pairs v = ?g ks1 @ map (Pair k) (Values_index v k) @ ?g ks2"
    by (simp add: Values_pairs_def split)
  moreover have "k \<notin> fst ` set (?g ks1)" using n1 by auto
  moreover have "k \<notin> fst ` set (?g ks2)" using n2 by auto
  ultimately show ?thesis by blast
next
  case False
  then have "Values_index v k = []"
    by (rule Values_index_notin)
  moreover have "k \<notin> fst ` set (Values_pairs v)"
    using False by (auto simp: Values_pairs_def)
  ultimately have "Values_pairs v = Values_pairs v @ map (Pair k) (Values_index v k) @ []
      \<and> k \<notin> fst ` set (Values_pairs v) \<and> k \<notin> fst ` set ([] :: (string \<times> string) list)"
    by simp
  then show ?thesis by blast
qed

subsection \<open>The nested range loops\<close>

lemma Values_index_Add:
  "Values_index (Values_Add v k x) k' = (if k' = k then Values_index v k @ [x] else Values_index v k')"
  by (simp add: Values_index_def Values_Add_def)

lemma range_values_index:
  "Values_index (range_values Values_Add dst k vs) k'
     = (if k' = k then Values_index dst k @ vs else Values_index dst k')"
  by (induction vs arbitrary: dst) (simp_all add: Values_index_Add)

lemma range_add_index_list:
  "distinct ks \<Longrightarrow>
   Values_index (range_add Values_Add src ks dst) k
     = Values_index dst k @ (if k \<in> set ks then Values_index src k else [])"
  by (induction ks arbitrary: dst) (auto simp: range_values_index)

lemma range_add_sorted_keys_index:
  "Values_index (range_add Values_Add src (sorted_list_of_fset (fmdom src)) dst) k
     = Values_index dst k @ Values_index src k"
  by (simp add: range_add_index_list sorted_list_of_fset.rep_eq Values_index_notin)

lemma range_values_dom:
  "fmdom (range_values Values_Add dst k vs) = (if vs = [] then fmdom dst else finsert k (fmdom dst))"
  by (induction vs arbitrary: dst) (auto simp: Values_Add_def)

lemma range_add_dom:
  "fmdom (range_add Values_Add src ks dst)
     = fmdom dst |\<union>| fset_of_list (filter (\<lambda>k. Values_index src k \<noteq> []) ks)"
  by (induction ks arbitrary: dst) (auto simp: range_values_dom)

lemma fmlookup_Values_index:
  "fmlookup v k = (if k |\<in>| fmdom v then Some (Values_index v k) else None)"
  by (auto simp: Values_index_def fmdom_notD split: option.splits dest: fmdomI)

text \<open>
  The map that the loop over \<^verbatim>\<open>c.params\<close> builds does not depend on the order in which the
  keys are visited.
\<close>

lemma range_add_index:
  assumes "distinct ks" and "distinct ks'" and "set ks = set ks'"
  shows "range_add Values_Add src ks dst = range_add Values_Add src ks' dst"
proof (rule fmap_ext)
  fix k
  have "fmdom (range_add Values_Add src ks dst) = fmdom (range_add Values_Add src ks' dst)"
    using assms by (auto simp: range_add_dom fset_of_list.rep_eq)
  moreover have "Values_index (range_add Values_Add src ks dst) k
      = Values_index (range_add Values_Add src ks' dst) k"
    using assms by (simp add: range_add_index_list)
  ultimately show "fmlookup (range_add Values_Add src ks dst) k
      = fmlookup (range_add Values_Add src ks' dst) k"
    by (simp add: fmlookup_Values_index)
qed

lemma Query_calls_baseURL: "baseURL (Query_calls calls c) = baseURL c"
  unfolding Query_calls_def by (induction calls arbitrary: c) (simp_all add: Query_def)

lemma Query_calls_params_index:
  "Values_index (params (Query_calls calls c)) k
     = Values_index (params c) k @ map snd (filter (\<lambda>kv. fst kv = k) calls)"
  unfolding Query_calls_def
  by (induction calls arbitrary: c) (simp_all add: Query_def Values_index_Add)

subsection \<open>Escaped paths hold no question mark\<close>

lemma upperhex_not_question: "n < 16 \<Longrightarrow> upperhex ! n \<noteq> CHR ''?''"
proof -
  assume "n < 16"
  then have "upperhex ! n \<in> set upperhex"
    by (intro nth_mem) (simp add: upperhex_def)
  moreover have "CHR ''?'' \<notin> set upperhex"
    by (simp add: upperhex_def)
  ultimately show ?thesis by metis
qed

lemma of_char_nibbles: "of_char c div 16 < (16::nat)" "of_char c mod 16 < (16::nat)"
proof -
  have "of_char c < (16 * 16::nat)" by simp
  then show "of_char c div 16 < (16::nat)"
    by (rule less_mult_imp_div_less)
  show "of_char c mod 16 < (16::nat)" by simp
qed

lemma escape_byte_path_no_question: "CHR ''?'' \<notin> set (escape_byte encodePath c)"
proof (cases "shouldEscape c encodePath")
  case True
  then show ?thesis
    using upperhex_not_question [OF of_char_nibbles(1) [of c]]
      upperhex_not_question [OF of_char_nibbles(2) [of c]]
    by (simp add: escape_byte_def)
next
  case False
  then have "c \<noteq> CHR ''?''"
    by (auto simp: shouldEscape_def)
  with False show ?thesis
    by (simp add: escape_byte_def)
qed

lemma escape_path_no_question: "CHR ''?'' \<notin> set (escape s encodePath)"
  by (induction s) (auto simp: escape_def escape_byte_path_no_question)

lemma validEncoded_path_no_question: "validEncoded s encodePath \<Longrightarrow> CHR ''?'' \<notin> set s"
  by (auto simp: validEncoded_def list_all_iff shouldEscape_def)

lemma EscapedPath_no_question: "CHR ''?'' \<notin> set (URL_EscapedPath u)"
  by (auto simp: URL_EscapedPath_def escape_path_no_question dest: validEncoded_path_no_question)

subsection \<open>The branches of \<open>do\<close>\<close>

lemma do_prepare_fullURL:
  "do_prepare jm c ctx m p = Inr (full, req) \<Longrightarrow> fullURL c p = Inr full"
  by (auto simp: do_prepare_def Let_def split: sum.splits option.splits)

lemma do_prepare_req_Body:
  "do_prepare jm c ctx m p = Inr (full, req) \<Longrightarrow>
     (case body c of
        None \<Rightarrow> req_Body req = None
      | Some v \<Rightarrow> jm v = Inr (the (req_Body req)) \<and> req_Body req \<noteq> None)"
  by (auto simp: do_prepare_def Let_def http_NewRequestWithContext_def
           split: sum.splits option.splits if_splits)

lemma do_cases:
  "do jm c ctx m p =
     (case do_prepare jm c ctx m p of
        Inl e \<Rightarrow> (\<lparr>resp = None, err = Some e\<rparr>, c)
      | Inr (full, req) \<Rightarrow>
          (case client c req of
             Inl e \<Rightarrow> (\<lparr>resp = None, err = Some e\<rparr>, c)
           | Inr rs \<Rightarrow>
               if 200 \<le> resp_StatusCode rs \<and> resp_StatusCode rs < 300
               then (\<lparr>resp = Some rs, err = None\<rparr>, c\<lparr>body := None\<rparr>)
               else (case failure (resp_Body rs) of
                       Some e \<Rightarrow> (\<lparr>resp = None, err = Some e\<rparr>, c)
                     | None \<Rightarrow>
                        (\<lparr>resp = None,
                          err = Some (HTTPError_ptr
                                  \<lparr>StatusCode = resp_StatusCode rs, Status = resp_Status rs,
                                   Method = m, URL = full, Body = pending (resp_Body rs)\<rparr>)\<rparr>, c))))"
  by (auto simp: do_def io_ReadAll_def split: sum.splits option.splits prod.splits)

subsection \<open>The resolved URL\<close>

lemma URL_String_authority_RawQuery: "URL_String_authority (t\<lparr>RawQuery := r\<rparr>) = URL_String_authority t"
  by (simp add: URL_String_authority_def)

lemma URL_EscapedPath_RawQuery: "URL_EscapedPath (t\<lparr>RawQuery := r\<rparr>) = URL_EscapedPath t"
  by (simp add: URL_EscapedPath_def)

lemma URL_String_hier_RawQuery: "URL_String_hier (t\<lparr>RawQuery := r\<rparr>) = URL_String_hier t"
  by (simp add: URL_String_hier_def URL_String_authority_RawQuery URL_EscapedPath_RawQuery)

lemma URL_String_fragment_RawQuery: "URL_String_fragment (t\<lparr>RawQuery := r\<rparr>) = URL_String_fragment t"
  by (simp add: URL_String_fragment_def URL_EscapedFragment_def)

lemma URL_String_RawQuery:
  "URL_String (t\<lparr>RawQuery := r\<rparr>)
     = URL_String_hier t @ (if ForceQuery t \<or> r \<noteq> [] then ''?'' @ r else []) @ URL_String_fragment t"
  by (simp add: URL_String_def URL_String_hier_RawQuery URL_String_fragment_RawQuery
        URL_String_query_def)

lemma URL_String_fragment_Path: "URL_String_fragment (u\<lparr>Path := x\<rparr>) = URL_String_fragment u"
  by (simp add: URL_String_fragment_def URL_EscapedFragment_def)

lemma fullURL_resolved:
  assumes "url_Parse (if baseURL c = [] then path else baseURL c) = Inr u"
  shows "fullURL c path =
     Inr (URL_String
            ((if baseURL c = [] then u
              else u\<lparr>Path := strings_TrimSuffix (Path u) ''/'' @ ''/'' @ strings_TrimPrefix path ''/''\<rparr>)
             \<lparr>RawQuery :=
                Values_Encode
                  (if baseURL c = [] then
                     range_add Values_Add (params c) (sorted_list_of_fset (fmdom (params c))) (URL_Query u)
                   else params c)\<rparr>))"
  using assms by (cases "baseURL c = []") (simp_all add: fullURL_def Let_def)

lemma Values_Add_commute:
  "k1 \<noteq> k2 \<Longrightarrow>
   Values_Add (Values_Add v k2 v2) k1 v1 = Values_Add (Values_Add v k1 v1) k2 v2"
  by (rule fmap_ext) (auto simp: Values_Add_def Values_index_def)

text \<open>
  The branch of \<open>fullURL\<close> with a base address: the resolved URL is the string of the
  parsed base with its path replaced by the base's path without one trailing slash, a
  slash, and the given path without one leading slash, and with its query replaced by the
  encoding of the accumulated query parameters.  The escaped path of that URL holds no
  question mark.
\<close>

lemma fullURL_base_branch:
  assumes "baseURL c \<noteq> []"
    and "url_Parse (baseURL c) = Inr u"
    and "tgt = u\<lparr>Path := strings_TrimSuffix (Path u) ''/'' @ ''/'' @ strings_TrimPrefix path ''/'',
                 RawQuery := Values_Encode (params c)\<rparr>"
  shows "fullURL c path = Inr (URL_String tgt)
     \<and> URL_String tgt =
         URL_String_hier tgt
           @ (if ForceQuery u \<or> Values_Encode (params c) \<noteq> [] then ''?'' @ Values_Encode (params c) else [])
           @ URL_String_fragment u
     \<and> (Opaque u = [] \<longrightarrow> (\<exists>pre. URL_String_hier tgt = pre @ URL_EscapedPath tgt))
     \<and> CHR ''?'' \<notin> set (URL_EscapedPath tgt)
     \<and> (\<exists>ps. Values_Encode (params c) = join_amp (map pair_encode ps)
              \<and> sorted (map fst ps)
              \<and> (\<forall>k. map snd (filter (\<lambda>kv. fst kv = k) ps) = Values_index (params c) k))"
proof -
  have resolved: "fullURL c path = Inr (URL_String tgt)"
    using assms by (simp add: fullURL_def)
  have shape: "URL_String tgt =
         URL_String_hier tgt
           @ (if ForceQuery u \<or> Values_Encode (params c) \<noteq> [] then ''?'' @ Values_Encode (params c) else [])
           @ URL_String_fragment u"
    unfolding assms(3)
    by (simp add: URL_String_def URL_String_query_def URL_String_fragment_def URL_EscapedFragment_def)
  have hier: "Opaque u = [] \<longrightarrow> (\<exists>pre. URL_String_hier tgt = pre @ URL_EscapedPath tgt)"
    unfolding assms(3) by (simp add: URL_String_hier_def Let_def)
  have pairs: "\<exists>ps. Values_Encode (params c) = join_amp (map pair_encode ps)
              \<and> sorted (map fst ps)
              \<and> (\<forall>k. map snd (filter (\<lambda>kv. fst kv = k) ps) = Values_index (params c) k)"
    using Values_Encode_pairs [of "params c"] Values_pairs_sorted [of "params c"]
      Values_pairs_key [of _ "params c"]
    by blast
  from resolved shape hier EscapedPath_no_question [of tgt] pairs show ?thesis
    by blast
qed

lemma fullURL_base_branch_posts:
  "fullURL (Query ''userId'' ''1''
              (BaseURL ''https://api.example.com'' (New transport_fails :: string Client)))
     ''/posts''
   = Inr ''https://api.example.com/posts?userId=1''"
proof -
  let ?c = "Query ''userId'' ''1'' (BaseURL ''https://api.example.com'' (New transport_fails))
            :: string Client"
  define u where "u = new_URL\<lparr>Scheme := ''https'', Host := ''api.example.com''\<rparr>"
  have b: "baseURL ?c \<noteq> []"
    by (simp add: Query_def BaseURL_def New_def)
  have p: "url_Parse (baseURL ?c) = Inr u"
    unfolding u_def by code_simp
  have s: "URL_String
             (u\<lparr>Path := strings_TrimSuffix (Path u) ''/'' @ ''/'' @ strings_TrimPrefix ''/posts'' ''/'',
                RawQuery := Values_Encode (params ?c)\<rparr>)
           = ''https://api.example.com/posts?userId=1''"
    unfolding u_def by code_simp
  from fullURL_base_branch [OF b p refl, of "''/posts''", THEN conjunct1]
  show ?thesis
    unfolding s .
qed

section \<open>The claims\<close>

text \<open>
  C8.  For every wrapper that holds a captured error, each terminal accessor gives that
  same error back: \<open>Raw\<close> returns nil bytes and the error, \<open>Body\<close> a nil stream and the error,
  \<open>Error\<close> the error, and \<open>Into\<close> the zero value of the target type and the error, whatever
  the decoder is.  No accessor touches a stream: the wrapper comes back as it was.
\<close>

theorem C8_accessors_return_captured_error:
  assumes "err r = Some e"
  shows "Raw r = Inr ((None, Some e), r)
     \<and> Response_Body r = Inr ((None, Some e), r)
     \<and> Response_Error r = Some e
     \<and> Into zero json_Decode r = Inr ((zero, Some e), r)"
  using assms by (simp add: Raw_def Response_Body_def Response_Error_def Into_def)

theorem C8_witness:
  "Raw \<lparr>resp = None, err = Some (errorString ''dial tcp: connection refused'')\<rparr>
       = Inr ((None, Some (errorString ''dial tcp: connection refused'')),
              \<lparr>resp = None, err = Some (errorString ''dial tcp: connection refused'')\<rparr>)
   \<and> Response_Body \<lparr>resp = None, err = Some (errorString ''dial tcp: connection refused'')\<rparr>
       = Inr ((None, Some (errorString ''dial tcp: connection refused'')),
              \<lparr>resp = None, err = Some (errorString ''dial tcp: connection refused'')\<rparr>)
   \<and> Response_Error \<lparr>resp = None, err = Some (errorString ''dial tcp: connection refused'')\<rparr>
       = Some (errorString ''dial tcp: connection refused'')
   \<and> Into [] decode_all \<lparr>resp = None, err = Some (errorString ''dial tcp: connection refused'')\<rparr>
       = Inr (([], Some (errorString ''dial tcp: connection refused'')),
              \<lparr>resp = None, err = Some (errorString ''dial tcp: connection refused'')\<rparr>)"
  using C8_accessors_return_captured_error
    [of "\<lparr>resp = None, err = Some (errorString ''dial tcp: connection refused'')\<rparr>"
        "errorString ''dial tcp: connection refused''" "[]" decode_all]
  by simp

text \<open>
  C7.  \<open>Reset\<close> clears the query parameters, the headers and the pending body and leaves
  the base address and the transport as they are: the client after \<open>Reset\<close> is a new client
  with the same base address and transport.  A request prepared after \<open>Reset\<close> has no header
  and no body, and the resolved URL has no query parameter of the client: with a base
  address its query is empty, without one it is the re-encoded query of the path alone.
\<close>

theorem C7_Reset_clears_params_headers_body:
  "params (Reset c) = fmempty \<and> headers (Reset c) = fmempty \<and> body (Reset c) = None
   \<and> baseURL (Reset c) = baseURL c \<and> client (Reset c) = client c
   \<and> Reset c = BaseURL (baseURL c) (New (client c))
   \<and> (\<forall>jm ctx m p full req. do_prepare jm (Reset c) ctx m p = Inr (full, req)
          \<longrightarrow> req_Header req = fmempty \<and> req_Body req = None)
   \<and> fullURL (Reset c) path =
        (if baseURL c = [] then
           (case url_Parse path of
              Inl e \<Rightarrow> Inl (wrapError ''invalid URL: '' e)
            | Inr u \<Rightarrow> Inr (URL_String (u\<lparr>RawQuery := Values_Encode (URL_Query u)\<rparr>)))
         else
           (case url_Parse (baseURL c) of
              Inl e \<Rightarrow> Inl (wrapError ''invalid baseURL: '' e)
            | Inr u \<Rightarrow>
                Inr (URL_String
                       (u\<lparr>Path := strings_TrimSuffix (Path u) ''/'' @ ''/'' @ strings_TrimPrefix path ''/'',
                          RawQuery := []\<rparr>))))"
proof -
  have empty_keys: "sorted_list_of_fset ({||} :: string fset) = []"
    by (simp add: sorted_list_of_fset.rep_eq)
  have encode_empty: "Values_Encode fmempty = []"
    by (simp add: Values_Encode_def)
  have fields: "params (Reset c) = fmempty \<and> headers (Reset c) = fmempty \<and> body (Reset c) = None
     \<and> baseURL (Reset c) = baseURL c \<and> client (Reset c) = client c
     \<and> Reset c = BaseURL (baseURL c) (New (client c))"
    by (simp add: Reset_def BaseURL_def New_def)
  have request: "\<forall>jm ctx m p full req. do_prepare jm (Reset c) ctx m p = Inr (full, req)
          \<longrightarrow> req_Header req = fmempty \<and> req_Body req = None"
    by (auto simp: do_prepare_def Let_def Reset_def empty_keys http_NewRequestWithContext_def
             split: sum.splits option.splits if_splits)
  have resolved: "fullURL (Reset c) path =
        (if baseURL c = [] then
           (case url_Parse path of
              Inl e \<Rightarrow> Inl (wrapError ''invalid URL: '' e)
            | Inr u \<Rightarrow> Inr (URL_String (u\<lparr>RawQuery := Values_Encode (URL_Query u)\<rparr>)))
         else
           (case url_Parse (baseURL c) of
              Inl e \<Rightarrow> Inl (wrapError ''invalid baseURL: '' e)
            | Inr u \<Rightarrow>
                Inr (URL_String
                       (u\<lparr>Path := strings_TrimSuffix (Path u) ''/'' @ ''/'' @ strings_TrimPrefix path ''/'',
                          RawQuery := []\<rparr>))))"
    by (simp add: fullURL_def Reset_def empty_keys encode_empty Let_def split: sum.splits)
  from fields request resolved show ?thesis by blast
qed

theorem C7_witness:
  "params (Reset (Client_Body (Some ''hi'') (Header ''X-Token'' ''s3cret''
       (Query ''userId'' ''1'' (BaseURL ''https://api.example.com'' (New transport_fails)))))) = fmempty
   \<and> headers (Reset (Client_Body (Some ''hi'') (Header ''X-Token'' ''s3cret''
       (Query ''userId'' ''1'' (BaseURL ''https://api.example.com'' (New transport_fails)))))) = fmempty
   \<and> body (Reset (Client_Body (Some ''hi'') (Header ''X-Token'' ''s3cret''
       (Query ''userId'' ''1'' (BaseURL ''https://api.example.com'' (New transport_fails)))))) = None
   \<and> fullURL (Reset (Client_Body (Some ''hi'') (Header ''X-Token'' ''s3cret''
       (Query ''userId'' ''1'' (BaseURL ''https://api.example.com'' (New transport_fails)))))) ''/posts''
       = Inr ''https://api.example.com/posts''"
proof -
  let ?c = "Client_Body (Some ''hi'') (Header ''X-Token'' ''s3cret''
       (Query ''userId'' ''1'' (BaseURL ''https://api.example.com'' (New transport_fails))))"
  define u where "u = new_URL\<lparr>Scheme := ''https'', Host := ''api.example.com''\<rparr>"
  note reset = C7_Reset_clears_params_headers_body [of ?c "''/posts''"]
  have b: "baseURL ?c = ''https://api.example.com''"
    by (simp add: Client_Body_def Header_def Query_def BaseURL_def New_def)
  have p: "url_Parse ''https://api.example.com'' = Inr u"
    unfolding u_def by code_simp
  have s: "URL_String (u\<lparr>Path := strings_TrimSuffix (Path u) ''/'' @ ''/'' @ strings_TrimPrefix ''/posts'' ''/'',
       RawQuery := []\<rparr>) = ''https://api.example.com/posts''"
    unfolding u_def by code_simp
  have "fullURL (Reset ?c) ''/posts'' = Inr ''https://api.example.com/posts''"
    using reset [THEN conjunct2, THEN conjunct2, THEN conjunct2, THEN conjunct2,
                 THEN conjunct2, THEN conjunct2, THEN conjunct2]
    by (simp only: b p s sum.case list.simps if_False)
  with reset show ?thesis
    by blast
qed

text \<open>
  C3.  An execution changes nothing of the client but the pending body: query parameters,
  headers, base address and transport stay.  The wrapper is without error exactly when the
  request was prepared, the transport returned a response and its status is in 200..299;
  then the pending body is cleared.  In every other case (the URL does not resolve, the body
  does not serialise, the request cannot be built, the transport fails, the status is
  outside 200..299) the client is unchanged, so the pending body is still set and a later
  execution that reaches the transport sends the serialised pending body again.
\<close>

theorem C3_body_cleared_exactly_on_success:
  assumes "do jm c ctx m p = (r, c')"
  shows "params c' = params c \<and> headers c' = headers c
     \<and> baseURL c' = baseURL c \<and> client c' = client c
     \<and> (err r = None \<longleftrightarrow>
          (\<exists>full req rs. do_prepare jm c ctx m p = Inr (full, req) \<and> client c req = Inr rs
             \<and> 200 \<le> resp_StatusCode rs \<and> resp_StatusCode rs < 300))
     \<and> body c' = (if err r = None then None else body c)
     \<and> (err r \<noteq> None \<longrightarrow> c' = c)
     \<and> (err r \<noteq> None \<longrightarrow>
          (\<forall>ctx2 m2 p2 full2 req2. do_prepare jm c' ctx2 m2 p2 = Inr (full2, req2) \<longrightarrow>
             (case body c of
                None \<Rightarrow> req_Body req2 = None
              | Some v \<Rightarrow> jm v = Inr (the (req_Body req2)) \<and> req_Body req2 \<noteq> None)))"
proof -
  have frame: "params c' = params c \<and> headers c' = headers c
     \<and> baseURL c' = baseURL c \<and> client c' = client c"
    using assms by (auto simp: do_cases split: sum.splits option.splits prod.splits if_splits)
  have succ: "err r = None \<longleftrightarrow>
          (\<exists>full req rs. do_prepare jm c ctx m p = Inr (full, req) \<and> client c req = Inr rs
             \<and> 200 \<le> resp_StatusCode rs \<and> resp_StatusCode rs < 300)"
    using assms by (auto simp: do_cases split: sum.splits option.splits prod.splits if_splits)
  have cleared: "body c' = (if err r = None then None else body c)"
    using assms by (auto simp: do_cases split: sum.splits option.splits prod.splits if_splits)
  have same: "err r \<noteq> None \<longrightarrow> c' = c"
    using assms by (auto simp: do_cases split: sum.splits option.splits prod.splits if_splits)
  have again: "err r \<noteq> None \<longrightarrow>
          (\<forall>ctx2 m2 p2 full2 req2. do_prepare jm c' ctx2 m2 p2 = Inr (full2, req2) \<longrightarrow>
             (case body c of
                None \<Rightarrow> req_Body req2 = None
              | Some v \<Rightarrow> jm v = Inr (the (req_Body req2)) \<and> req_Body req2 \<noteq> None))"
    using same do_prepare_req_Body by blast
  from frame succ cleared same again show ?thesis by blast
qed

theorem C3_witness:
  "err (fst (do marshal_string
          (Client_Body (Some ''hi'') (BaseURL ''https://api.example.com'' (New transport_fails)))
          (Some (Context 0)) ''POST'' ''/posts''))
     = Some (errorString ''dial tcp: connection refused'')
   \<and> snd (do marshal_string
          (Client_Body (Some ''hi'') (BaseURL ''https://api.example.com'' (New transport_fails)))
          (Some (Context 0)) ''POST'' ''/posts'')
     = Client_Body (Some ''hi'') (BaseURL ''https://api.example.com'' (New transport_fails))
   \<and> body (snd (do marshal_string
          (Client_Body (Some ''hi'') (BaseURL ''https://api.example.com'' (New transport_fails)))
          (Some (Context 0)) ''POST'' ''/posts''))
     = Some ''hi''
   \<and> marshal_string ''hi''
     = Inr (the (req_Body (snd (projr (do_prepare marshal_string
          (snd (do marshal_string
             (Client_Body (Some ''hi'') (BaseURL ''https://api.example.com'' (New transport_fails)))
             (Some (Context 0)) ''POST'' ''/posts''))
          (Some (Context 1)) ''POST'' ''/posts'')))))"
proof -
  let ?c = "Client_Body (Some ''hi'') (BaseURL ''https://api.example.com'' (New transport_fails))
              :: string Client"
  let ?run = "do marshal_string ?c (Some (Context 0)) ''POST'' ''/posts''"
  let ?second = "do_prepare marshal_string (snd ?run) (Some (Context 1)) ''POST'' ''/posts''"
  have run: "?run = (fst ?run, snd ?run)"
    by simp
  have e: "err (fst ?run) = Some (errorString ''dial tcp: connection refused'')"
    by code_simp
  have b: "body ?c = Some ''hi''"
    by (simp add: Client_Body_def)
  have "isl ?second = False"
    by code_simp
  then have second: "?second = Inr (fst (projr ?second), snd (projr ?second))"
    by (cases ?second) simp_all
  note frame = C3_body_cleared_exactly_on_success [OF run]
  have failed: "err (fst ?run) \<noteq> None"
    using e by simp
  have same: "snd ?run = ?c"
    using frame [THEN conjunct2, THEN conjunct2, THEN conjunct2, THEN conjunct2,
                 THEN conjunct2, THEN conjunct2, THEN conjunct1] failed
    by blast
  have "case body ?c of
          None \<Rightarrow> req_Body (snd (projr ?second)) = None
        | Some v \<Rightarrow> marshal_string v = Inr (the (req_Body (snd (projr ?second))))
                     \<and> req_Body (snd (projr ?second)) \<noteq> None"
    using frame [THEN conjunct2, THEN conjunct2, THEN conjunct2, THEN conjunct2,
                 THEN conjunct2, THEN conjunct2, THEN conjunct2] failed second
    by blast
  then have sent: "marshal_string ''hi'' = Inr (the (req_Body (snd (projr ?second))))"
    by (simp add: b)
  from e same b sent show ?thesis
    by simp
qed

text \<open>
  C4 (amended).  When the request is prepared and the transport returns a response:
  a status in 200..299 gives a wrapper that holds that response, unread, and no error;
  any other status, when the body of the response is read to its end without a read error,
  gives a wrapper whose error is an \<open>HTTPError\<close> with the status code, the status text, the
  method given to \<open>do\<close>, the resolved URL and all bytes of the body, and this error matches
  \<open>ErrNotOK\<close> under \<open>errors_Is\<close>.  When reading the body fails, the wrapper holds the read
  error and no \<open>HTTPError\<close> is built.
\<close>

theorem C4_status_classification:
  assumes "do_prepare jm c ctx m p = Inr (full, req)"
    and "client c req = Inr rs"
  shows "fullURL c p = Inr full
     \<and> (200 \<le> resp_StatusCode rs \<and> resp_StatusCode rs < 300 \<longrightarrow>
          fst (do jm c ctx m p) = \<lparr>resp = Some rs, err = None\<rparr>)
     \<and> (\<not> (200 \<le> resp_StatusCode rs \<and> resp_StatusCode rs < 300) \<and> failure (resp_Body rs) = None \<longrightarrow>
          fst (do jm c ctx m p) =
            \<lparr>resp = None,
             err = Some (HTTPError_ptr
                     \<lparr>StatusCode = resp_StatusCode rs, Status = resp_Status rs, Method = m,
                      URL = full, Body = pending (resp_Body rs)\<rparr>)\<rparr>
          \<and> errors_Is (HTTPError_ptr
                     \<lparr>StatusCode = resp_StatusCode rs, Status = resp_Status rs, Method = m,
                      URL = full, Body = pending (resp_Body rs)\<rparr>) ErrNotOK)
     \<and> (\<forall>rerr. \<not> (200 \<le> resp_StatusCode rs \<and> resp_StatusCode rs < 300)
                 \<and> failure (resp_Body rs) = Some rerr \<longrightarrow>
          fst (do jm c ctx m p) = \<lparr>resp = None, err = Some rerr\<rparr>)"
  using assms do_prepare_fullURL [OF assms(1)]
  by (simp add: do_cases HTTPError_Unwrap_def)

theorem C4_witness:
  "fst (do marshal_string
          (BaseURL ''https://api.example.com''
             (New (transport_replies 404 ''404 Not Found'' (stream_of ''{\"error\":\"not found\"}''))))
          (Some (Context 0)) ''GET'' ''/posts/0'')
     = \<lparr>resp = None,
        err = Some (HTTPError_ptr
                \<lparr>StatusCode = 404, Status = ''404 Not Found'', Method = ''GET'',
                 URL = ''https://api.example.com/posts/0'', Body = ''{\"error\":\"not found\"}''\<rparr>)\<rparr>
   \<and> errors_Is (HTTPError_ptr
                \<lparr>StatusCode = 404, Status = ''404 Not Found'', Method = ''GET'',
                 URL = ''https://api.example.com/posts/0'', Body = ''{\"error\":\"not found\"}''\<rparr>) ErrNotOK"
proof -
  let ?t = "transport_replies 404 ''404 Not Found'' (stream_of ''{\"error\":\"not found\"}'')"
  let ?c = "BaseURL ''https://api.example.com'' (New ?t) :: string Client"
  let ?prep = "do_prepare marshal_string ?c (Some (Context 0)) ''GET'' ''/posts/0''"
  let ?rs = "\<lparr>resp_StatusCode = 404, resp_Status = ''404 Not Found'',
              resp_Body = stream_of ''{\"error\":\"not found\"}''\<rparr>"
  have "isl ?prep = False"
    by code_simp
  then have prep: "?prep = Inr (fst (projr ?prep), snd (projr ?prep))"
    by (cases ?prep) simp_all
  have full: "fst (projr ?prep) = ''https://api.example.com/posts/0''"
    by code_simp
  have reply: "client ?c (snd (projr ?prep)) = Inr ?rs"
    by (simp add: BaseURL_def New_def transport_replies_def)
  note status = C4_status_classification [OF prep reply]
  have "\<not> (200 \<le> resp_StatusCode ?rs \<and> resp_StatusCode ?rs < 300) \<and> failure (resp_Body ?rs) = None"
    by (simp add: stream_of_def)
  with status [THEN conjunct2, THEN conjunct2, THEN conjunct1]
  have captured: "fst (do marshal_string ?c (Some (Context 0)) ''GET'' ''/posts/0'') =
            \<lparr>resp = None,
             err = Some (HTTPError_ptr
                     \<lparr>StatusCode = resp_StatusCode ?rs, Status = resp_Status ?rs, Method = ''GET'',
                      URL = fst (projr ?prep), Body = pending (resp_Body ?rs)\<rparr>)\<rparr>
          \<and> errors_Is (HTTPError_ptr
                     \<lparr>StatusCode = resp_StatusCode ?rs, Status = resp_Status ?rs, Method = ''GET'',
                      URL = fst (projr ?prep), Body = pending (resp_Body ?rs)\<rparr>) ErrNotOK"
    by blast
  have sel: "resp_StatusCode ?rs = 404" "resp_Status ?rs = ''404 Not Found''"
    "pending (resp_Body ?rs) = ''{\"error\":\"not found\"}''"
    by (simp_all add: stream_of_def)
  from captured show ?thesis
    unfolding full sel .
qed

theorem C4_read_failure_is_not_HTTPError:
  "fst (do marshal_string
          (BaseURL ''https://api.example.com''
             (New (transport_replies 500 ''500 Internal Server Error''
                     (broken_stream ''{\"err'' (errorString ''unexpected EOF'')))))
          (Some (Context 0)) ''GET'' ''/posts/0'')
     = \<lparr>resp = None, err = Some (errorString ''unexpected EOF'')\<rparr>
   \<and> errors_As_HTTPError (errorString ''unexpected EOF'') = None
   \<and> \<not> errors_Is (errorString ''unexpected EOF'') ErrNotOK"
  by code_simp

text \<open>
  C10 (amended).  When the request is prepared, the transport returns a response with a
  status outside 200..299 and reading the body of the response fails, the wrapper holds
  the read error itself and no response; \<open>do\<close> builds no \<open>HTTPError\<close> and adds no link to
  \<open>ErrNotOK\<close>, and the client is unchanged.  So the captured error is an \<open>HTTPError\<close>, or
  matches \<open>ErrNotOK\<close>, only if the read error itself is one, or matches it.
\<close>

theorem C10_read_error_returned_raw:
  assumes "do_prepare jm c ctx m p = Inr (full, req)"
    and "client c req = Inr rs"
    and "\<not> (200 \<le> resp_StatusCode rs \<and> resp_StatusCode rs < 300)"
    and "failure (resp_Body rs) = Some rerr"
  shows "do jm c ctx m p = (\<lparr>resp = None, err = Some rerr\<rparr>, c)
     \<and> Response_Error (fst (do jm c ctx m p)) = Some rerr
     \<and> (\<not> errors_Is rerr ErrNotOK \<longrightarrow>
          \<not> errors_Is (the (Response_Error (fst (do jm c ctx m p)))) ErrNotOK)
     \<and> (errors_As_HTTPError rerr = None \<longrightarrow>
          errors_As_HTTPError (the (Response_Error (fst (do jm c ctx m p)))) = None)"
  using assms by (simp add: do_cases Response_Error_def)

theorem C10_witness:
  "Response_Error (fst (do marshal_string
          (BaseURL ''https://api.example.com''
             (New (transport_replies 502 ''502 Bad Gateway''
                     (broken_stream ''<html>'' (errorString ''connection reset by peer'')))))
          (Some (Context 0)) ''GET'' ''/posts''))
     = Some (errorString ''connection reset by peer'')
   \<and> \<not> errors_Is (the (Response_Error (fst (do marshal_string
          (BaseURL ''https://api.example.com''
             (New (transport_replies 502 ''502 Bad Gateway''
                     (broken_stream ''<html>'' (errorString ''connection reset by peer'')))))
          (Some (Context 0)) ''GET'' ''/posts'')))) ErrNotOK"
proof -
  let ?rs = "\<lparr>resp_StatusCode = 502, resp_Status = ''502 Bad Gateway'',
              resp_Body = broken_stream ''<html>'' (errorString ''connection reset by peer'')\<rparr>"
  let ?c = "BaseURL ''https://api.example.com''
              (New (transport_replies 502 ''502 Bad Gateway''
                      (broken_stream ''<html>'' (errorString ''connection reset by peer''))))
            :: string Client"
  let ?prep = "do_prepare marshal_string ?c (Some (Context 0)) ''GET'' ''/posts''"
  have "isl ?prep = False"
    by code_simp
  then have prep: "?prep = Inr (fst (projr ?prep), snd (projr ?prep))"
    by (cases ?prep) simp_all
  have reply: "client ?c (snd (projr ?prep)) = Inr ?rs"
    by (simp add: BaseURL_def New_def transport_replies_def)
  have status: "\<not> (200 \<le> resp_StatusCode ?rs \<and> resp_StatusCode ?rs < 300)"
    by simp
  have broken: "failure (resp_Body ?rs) = Some (errorString ''connection reset by peer'')"
    by (simp add: broken_stream_def)
  have unrelated: "\<not> errors_Is (errorString ''connection reset by peer'') ErrNotOK"
    by simp
  note raw = C10_read_error_returned_raw [OF prep reply status broken]
  from raw [THEN conjunct2, THEN conjunct1]
       raw [THEN conjunct2, THEN conjunct2, THEN conjunct1] unrelated
  show ?thesis
    by blast
qed

theorem C10_read_error_may_match_ErrNotOK:
  "Response_Error (fst (do marshal_string
          (BaseURL ''https://api.example.com''
             (New (transport_replies 502 ''502 Bad Gateway'' (broken_stream [] ErrNotOK))))
          (Some (Context 0)) ''GET'' ''/posts''))
     = Some ErrNotOK
   \<and> errors_Is ErrNotOK ErrNotOK"
  by code_simp

text \<open>
  C2 (the code departs from the claim).  A client with the explicit header
  \<^verbatim>\<open>Content-Type: text/plain\<close> and a body: \<open>do\<close> tests \<^verbatim>\<open>req.Header\<close>, which is still empty,
  before it copies the headers of the client, so the default is set as well and the
  request carries both values, \<^verbatim>\<open>application/json\<close> first.
\<close>

theorem C2_default_applied_despite_explicit_header:
  "do_prepare marshal_string
     (Client_Body (Some ''hi'') (Header ''Content-Type'' ''text/plain'' (New transport_fails)))
     (Some (Context 0)) ''POST'' ''https://x.test/a''
   = Inr (''https://x.test/a'',
          \<lparr>req_ctx = Context 0, req_Method = ''POST'',
           req_URL = new_URL\<lparr>Scheme := ''https'', Host := ''x.test'', Path := ''/a''\<rparr>,
           req_Header = fmupd ''Content-Type'' [''application/json'', ''text/plain''] fmempty,
           req_Body = Some ''\"hi\"'', req_Host = ''x.test''\<rparr>)"
  by code_simp

text \<open>
  C1 (the code departs from the claim).  A client with the base address
  \<^verbatim>\<open>https://api.example.com\<close> and the query parameter \<^verbatim>\<open>userId=1\<close>, and the path
  \<^verbatim>\<open>/posts?x=1\<close>, which carries a query string.  The branch of \<open>fullURL\<close> with a base
  address puts the whole path argument into the path of the URL and never parses it, so the
  query string of the path is not discarded, as the claim has it, nor merged, as the doc
  comment of \<open>fullURL\<close> and the branch without base address have it: its text stays in the
  resolved URL with the question mark written \<^verbatim>\<open>%3F\<close>.  For the path \<^verbatim>\<open>/posts\<close> the resolved
  URL is the one the claim gives.
\<close>

theorem C1_query_of_path_not_discarded:
  "fullURL (Query ''userId'' ''1''
              (BaseURL ''https://api.example.com'' (New transport_fails :: string Client)))
     ''/posts?x=1''
   = Inr ''https://api.example.com/posts%3Fx=1?userId=1''
   \<and> fullURL (Query ''userId'' ''1''
              (BaseURL ''https://api.example.com'' (New transport_fails :: string Client)))
     ''/posts''
   = Inr ''https://api.example.com/posts?userId=1''"
  by code_simp

text \<open>
  C5 (amended).  For a client with an empty base address and a path that parses as a URL, the
  resolved URL is the parsed path with its query replaced by the encoding of a list of
  key-value pairs that is sorted by key and holds, for every key, the values that the
  path's own query gives to the key (as \<open>URL_Query\<close> parses it) followed by the values
  accumulated for the key, in the order of their addition.  An accumulated parameter
  follows the path's parameters of the same key; among different keys the sorted order
  decides.
\<close>

theorem C5_no_base_merges_query_per_key:
  assumes "baseURL c = []"
    and "url_Parse path = Inr u"
  shows "\<exists>ps. fullURL c path = Inr (URL_String (u\<lparr>RawQuery := join_amp (map pair_encode ps)\<rparr>))
           \<and> sorted (map fst ps)
           \<and> (\<forall>k. map snd (filter (\<lambda>kv. fst kv = k) ps)
                     = Values_index (URL_Query u) k @ Values_index (params c) k)"
proof -
  let ?q = "range_add Values_Add (params c) (sorted_list_of_fset (fmdom (params c))) (URL_Query u)"
  have "fullURL c path = Inr (URL_String (u\<lparr>RawQuery := join_amp (map pair_encode (Values_pairs ?q))\<rparr>))"
    using assms by (simp add: fullURL_def Let_def Values_Encode_pairs)
  moreover have "sorted (map fst (Values_pairs ?q))"
    by (rule Values_pairs_sorted)
  moreover have "\<forall>k. map snd (filter (\<lambda>kv. fst kv = k) (Values_pairs ?q))
                     = Values_index (URL_Query u) k @ Values_index (params c) k"
    by (simp add: Values_pairs_key range_add_sorted_keys_index)
  ultimately show ?thesis
    by blast
qed

theorem C5_witness:
  "(\<exists>ps. fullURL (Query ''y'' ''2'' (New transport_fails :: string Client)) ''https://x.test/a?x=1''
            = Inr (URL_String
                     (new_URL\<lparr>Scheme := ''https'', Host := ''x.test'', Path := ''/a'', RawQuery := ''x=1'',
                        RawQuery := join_amp (map pair_encode ps)\<rparr>))
          \<and> sorted (map fst ps)
          \<and> (\<forall>k. map snd (filter (\<lambda>kv. fst kv = k) ps)
                    = Values_index
                        (URL_Query (new_URL\<lparr>Scheme := ''https'', Host := ''x.test'', Path := ''/a'',
                                      RawQuery := ''x=1''\<rparr>)) k
                      @ Values_index (params (Query ''y'' ''2'' (New transport_fails :: string Client))) k))
   \<and> fullURL (Query ''y'' ''2'' (New transport_fails :: string Client)) ''https://x.test/a?x=1''
       = Inr ''https://x.test/a?x=1&y=2''"
proof -
  let ?c = "Query ''y'' ''2'' (New transport_fails :: string Client)"
  have b: "baseURL ?c = []"
    by (simp add: Query_def New_def)
  have p: "url_Parse ''https://x.test/a?x=1''
             = Inr (new_URL\<lparr>Scheme := ''https'', Host := ''x.test'', Path := ''/a'', RawQuery := ''x=1''\<rparr>)"
    by code_simp
  have v: "fullURL ?c ''https://x.test/a?x=1'' = Inr ''https://x.test/a?x=1&y=2''"
    by code_simp
  from C5_no_base_merges_query_per_key [OF b p] v show ?thesis
    by (rule conjI)
qed

theorem C5_accumulated_parameter_before_path_parameter:
  "fullURL (Query ''a'' ''2'' (New transport_fails :: string Client)) ''https://x.test/a?x=1''
     = Inr ''https://x.test/a?a=2&x=1''"
  by code_simp

text \<open>
  C6.  After any sequence of \<open>Query\<close> calls the values stored for a key are the values it had
  before followed by the values the calls added for it, in the order of the calls.  In the
  resolved URL (with or without base address) the query holds these values as one run of
  \<^verbatim>\<open>key=value\<close> texts in exactly that order, after the values the path's own query gives
  to the key when there is no base address; no other parameter of that key stands before or
  after the run.
\<close>

theorem C6_repeated_key_keeps_values_in_order:
  assumes "url_Parse (if baseURL c = [] then path else baseURL c) = Inr u"
    and "base_tgt = (if baseURL c = [] then u
                     else u\<lparr>Path := strings_TrimSuffix (Path u) ''/'' @ ''/'' @ strings_TrimPrefix path ''/''\<rparr>)"
    and "prior = (if baseURL c = [] then Values_index (URL_Query u) k else []) @ Values_index (params c) k"
    and "added = map snd (filter (\<lambda>kv. fst kv = k) calls)"
  shows "Values_index (params (Query_calls calls c)) k = Values_index (params c) k @ added
     \<and> (\<exists>before after.
            fullURL (Query_calls calls c) path =
              Inr (URL_String_hier base_tgt
                     @ (if ForceQuery u \<or> before @ map (Pair k) (prior @ added) @ after \<noteq> []
                        then ''?'' @ join_amp (map pair_encode (before @ map (Pair k) (prior @ added) @ after))
                        else [])
                     @ URL_String_fragment u)
          \<and> k \<notin> fst ` set before \<and> k \<notin> fst ` set after)"
proof -
  let ?c = "Query_calls calls c"
  let ?q = "if baseURL c = [] then
              range_add Values_Add (params ?c) (sorted_list_of_fset (fmdom (params ?c))) (URL_Query u)
            else params ?c"
  have stored: "Values_index (params ?c) k = Values_index (params c) k @ added"
    by (simp add: Query_calls_params_index assms(4))
  have index: "Values_index ?q k = prior @ added"
    by (simp add: range_add_sorted_keys_index stored assms(3))
  have parse: "url_Parse (if baseURL ?c = [] then path else baseURL ?c) = Inr u"
    using assms(1) by (simp only: Query_calls_baseURL)
  have resolved: "fullURL ?c path = Inr (URL_String (base_tgt\<lparr>RawQuery := Values_Encode ?q\<rparr>))"
    using fullURL_resolved [OF parse] by (simp add: Query_calls_baseURL assms(2))
  have force: "ForceQuery base_tgt = ForceQuery u"
    and frag: "URL_String_fragment base_tgt = URL_String_fragment u"
    by (simp_all add: assms(2) URL_String_fragment_Path)
  have string: "URL_String (base_tgt\<lparr>RawQuery := Values_Encode ?q\<rparr>) =
      URL_String_hier base_tgt
        @ (if ForceQuery u \<or> Values_pairs ?q \<noteq> []
           then ''?'' @ join_amp (map pair_encode (Values_pairs ?q)) else [])
        @ URL_String_fragment u"
    by (simp only: URL_String_RawQuery force frag Values_Encode_pairs join_amp_pairs_empty_iff)
  from Values_pairs_block [of ?q k] obtain before after where
    block: "Values_pairs ?q = before @ map (Pair k) (Values_index ?q k) @ after"
    and outside: "k \<notin> fst ` set before" "k \<notin> fst ` set after"
    by blast
  have "fullURL ?c path =
          Inr (URL_String_hier base_tgt
                 @ (if ForceQuery u \<or> before @ map (Pair k) (prior @ added) @ after \<noteq> []
                    then ''?'' @ join_amp (map pair_encode (before @ map (Pair k) (prior @ added) @ after))
                    else [])
                 @ URL_String_fragment u)"
    using resolved string block index by simp
  with stored outside show ?thesis
    by blast
qed

theorem C6_witness:
  "Values_index
     (params (Query_calls [(''tag'', ''b''), (''x'', ''1''), (''tag'', ''a'')]
                (New transport_fails :: string Client))) ''tag''
     = [''b'', ''a'']
   \<and> fullURL (Query_calls [(''tag'', ''b''), (''x'', ''1''), (''tag'', ''a'')]
                (New transport_fails :: string Client)) ''https://x.test/a?tag=0''
     = Inr ''https://x.test/a?tag=0&tag=b&tag=a&x=1''"
proof -
  let ?c = "New transport_fails :: string Client"
  let ?calls = "[(''tag'', ''b''), (''x'', ''1''), (''tag'', ''a'')]"
  have p: "url_Parse (if baseURL ?c = [] then ''https://x.test/a?tag=0'' else baseURL ?c)
             = Inr (new_URL\<lparr>Scheme := ''https'', Host := ''x.test'', Path := ''/a'', RawQuery := ''tag=0''\<rparr>)"
    by code_simp
  have empty: "Values_index (params ?c) ''tag'' = []"
    by (simp add: New_def Values_index_def)
  have v: "fullURL (Query_calls ?calls ?c) ''https://x.test/a?tag=0''
             = Inr ''https://x.test/a?tag=0&tag=b&tag=a&x=1''"
    by code_simp
  from C6_repeated_key_keeps_values_in_order
         [where k = "''tag''" and calls = ?calls, OF p refl refl refl, THEN conjunct1]
  have "Values_index (params (Query_calls ?calls ?c)) ''tag'' = [''b'', ''a'']"
    by (simp add: empty)
  with v show ?thesis
    by blast
qed

text \<open>
  C9.  The query of the resolved URL (with or without base address) is the encoding of a
  list of key-value pairs that is sorted by key in the byte-wise order of strings, whatever
  the order of the \<open>Query\<close> calls and whatever the order of the parameters in the path; for
  each key the list holds its values in order: those of the path's own query first (without
  base address), then the accumulated ones in the order of their addition.  Two \<open>Query\<close>
  calls with different keys can be exchanged without changing the resolved URL.
\<close>

theorem C9_query_keys_in_sorted_order:
  assumes "url_Parse (if baseURL c = [] then path else baseURL c) = Inr u"
    and "base_tgt = (if baseURL c = [] then u
                     else u\<lparr>Path := strings_TrimSuffix (Path u) ''/'' @ ''/'' @ strings_TrimPrefix path ''/''\<rparr>)"
  shows "(\<exists>ps. fullURL c path =
                  Inr (URL_String_hier base_tgt
                         @ (if ForceQuery u \<or> ps \<noteq> [] then ''?'' @ join_amp (map pair_encode ps) else [])
                         @ URL_String_fragment u)
             \<and> sorted (map fst ps)
             \<and> (\<forall>k. map snd (filter (\<lambda>kv. fst kv = k) ps)
                       = (if baseURL c = [] then Values_index (URL_Query u) k else [])
                         @ Values_index (params c) k))
     \<and> (k1 \<noteq> k2 \<longrightarrow>
          fullURL (Query k1 v1 (Query k2 v2 c)) path = fullURL (Query k2 v2 (Query k1 v1 c)) path)"
proof -
  let ?q = "if baseURL c = [] then
              range_add Values_Add (params c) (sorted_list_of_fset (fmdom (params c))) (URL_Query u)
            else params c"
  have resolved: "fullURL c path = Inr (URL_String (base_tgt\<lparr>RawQuery := Values_Encode ?q\<rparr>))"
    using fullURL_resolved [OF assms(1)] by (simp add: assms(2))
  have force: "ForceQuery base_tgt = ForceQuery u"
    and frag: "URL_String_fragment base_tgt = URL_String_fragment u"
    by (simp_all add: assms(2) URL_String_fragment_Path)
  have string: "URL_String (base_tgt\<lparr>RawQuery := Values_Encode ?q\<rparr>) =
      URL_String_hier base_tgt
        @ (if ForceQuery u \<or> Values_pairs ?q \<noteq> []
           then ''?'' @ join_amp (map pair_encode (Values_pairs ?q)) else [])
        @ URL_String_fragment u"
    by (simp only: URL_String_RawQuery force frag Values_Encode_pairs join_amp_pairs_empty_iff)
  have keys: "sorted (map fst (Values_pairs ?q))"
    by (rule Values_pairs_sorted)
  have vals: "\<forall>k. map snd (filter (\<lambda>kv. fst kv = k) (Values_pairs ?q))
                 = (if baseURL c = [] then Values_index (URL_Query u) k else []) @ Values_index (params c) k"
    by (simp add: Values_pairs_key range_add_sorted_keys_index)
  have first: "\<exists>ps. fullURL c path =
                  Inr (URL_String_hier base_tgt
                         @ (if ForceQuery u \<or> ps \<noteq> [] then ''?'' @ join_amp (map pair_encode ps) else [])
                         @ URL_String_fragment u)
             \<and> sorted (map fst ps)
             \<and> (\<forall>k. map snd (filter (\<lambda>kv. fst kv = k) ps)
                       = (if baseURL c = [] then Values_index (URL_Query u) k else [])
                         @ Values_index (params c) k)"
    using resolved string keys vals by (intro exI [of _ "Values_pairs ?q"]) simp
  have "k1 \<noteq> k2 \<longrightarrow> Query k1 v1 (Query k2 v2 c) = Query k2 v2 (Query k1 v1 c)"
    by (simp add: Query_def Values_Add_commute)
  then have second: "k1 \<noteq> k2 \<longrightarrow>
          fullURL (Query k1 v1 (Query k2 v2 c)) path = fullURL (Query k2 v2 (Query k1 v1 c)) path"
    by auto
  from first second show ?thesis
    by blast
qed

theorem C9_witness:
  "fullURL (Query ''a'' ''2'' (Query ''b'' ''1'' (Query ''a'' ''1'' (New transport_fails :: string Client))))
     ''https://x.test/p?b=0&a=0''
     = Inr ''https://x.test/p?a=0&a=1&a=2&b=0&b=1''
   \<and> fullURL (Query ''a'' ''2'' (Query ''b'' ''1'' (Query ''a'' ''1'' (New transport_fails :: string Client))))
     ''https://x.test/p?b=0&a=0''
     = fullURL (Query ''b'' ''1'' (Query ''a'' ''2'' (Query ''a'' ''1'' (New transport_fails :: string Client))))
     ''https://x.test/p?b=0&a=0''
   \<and> (\<exists>ps. Inr ''https://x.test/p?a=0&a=1&a=2&b=0&b=1''
            = (Inr (''https://x.test/p'' @ ''?'' @ join_amp (map pair_encode ps)) :: error + string)
          \<and> sorted (map fst ps))"
proof -
  let ?c1 = "Query ''a'' ''1'' (New transport_fails :: string Client)"
  let ?c = "Query ''a'' ''2'' (Query ''b'' ''1'' ?c1)"
  let ?u = "new_URL\<lparr>Scheme := ''https'', Host := ''x.test'', Path := ''/p'', RawQuery := ''b=0&a=0''\<rparr>"
  have p: "url_Parse (if baseURL ?c = [] then ''https://x.test/p?b=0&a=0'' else baseURL ?c) = Inr ?u"
    by code_simp
  have p1: "url_Parse (if baseURL ?c1 = [] then ''https://x.test/p?b=0&a=0'' else baseURL ?c1) = Inr ?u"
    by code_simp
  have b: "baseURL ?c = []"
    by (simp add: Query_def New_def)
  have v: "fullURL ?c ''https://x.test/p?b=0&a=0'' = Inr ''https://x.test/p?a=0&a=1&a=2&b=0&b=1''"
    by code_simp
  have hier: "URL_String_hier ?u = ''https://x.test/p''" and frag: "URL_String_fragment ?u = []"
    and force: "ForceQuery ?u = False"
    by code_simp+
  from C9_query_keys_in_sorted_order [OF p refl, THEN conjunct1] obtain ps where
    ps: "fullURL ?c ''https://x.test/p?b=0&a=0'' =
           Inr (URL_String_hier (if baseURL ?c = [] then ?u else ?u\<lparr>Path := strings_TrimSuffix (Path ?u) ''/'' @ ''/'' @ strings_TrimPrefix ''https://x.test/p?b=0&a=0'' ''/''\<rparr>)
                  @ (if ForceQuery ?u \<or> ps \<noteq> [] then ''?'' @ join_amp (map pair_encode ps) else [])
                  @ URL_String_fragment ?u)"
    and sorted: "sorted (map fst ps)"
    by blast
  have nonempty: "ps \<noteq> []"
  proof
    assume "ps = []"
    with ps v show False
      by (simp add: b hier frag force)
  qed
  from ps v nonempty have shape: "Inr ''https://x.test/p?a=0&a=1&a=2&b=0&b=1''
            = (Inr (''https://x.test/p'' @ ''?'' @ join_amp (map pair_encode ps)) :: error + string)"
    by (simp add: b hier frag force)
  have swap: "fullURL ?c ''https://x.test/p?b=0&a=0''
      = fullURL (Query ''b'' ''1'' (Query ''a'' ''2'' ?c1)) ''https://x.test/p?b=0&a=0''"
    using C9_query_keys_in_sorted_order [OF p1 refl, of "''a''" "''b''" "''2''" "''1''", THEN conjunct2]
    by simp
  from v swap shape sorted show ?thesis
    by blast
qed

end
